theory Spec2Isabelle
  imports Main
begin

section \<open>Data model\<close>

text \<open>
  Documents of the store are records; a collection is the list of its documents in
  insertion order. An ObjectId is a natural number, a point in time is the number of
  milliseconds since the epoch. Every \<open>new Date()\<close> of one handler run reads the
  same clock value \<open>now\<close>, which the handler takes as an argument.
\<close>

type_synonym objectId = nat
type_synonym time = int

subsection \<open>Values passed where the callee expects an object\<close>

text \<open>
  \<open>NotificationService.createNotification\<close> reads properties of its second argument.
  The callers pass either an object literal or a string; reading a property that a value
  does not have gives \<open>undefined\<close>.
\<close>

datatype js_value =
    JUndefined
  | JString string
  | JId objectId
  | JObject "(string \<times> js_value) list"

fun get_prop :: "js_value \<Rightarrow> string \<Rightarrow> js_value" where
  "get_prop (JObject kvs) k = (case map_of kvs k of Some v \<Rightarrow> v | None \<Rightarrow> JUndefined)"
| "get_prop v k = JUndefined"

subsection \<open>User (models/User.js)\<close>

datatype plan = Free | Premium | Platinum

record user =
  user_id :: objectId
  name :: string
  subscription_plan :: plan
  lastSeen :: time
  isOnline :: bool

subsection \<open>Notification (models/Notification.js, src/unnamed/part_003)\<close>

record notification =
  n_id :: objectId
  n_userId :: objectId
  n_type :: string
  n_title :: string
  n_message :: string
  n_fromUserId :: "objectId option"
  n_isRead :: bool
  n_readAt :: "time option"

definition NOTIFICATION_TYPES :: "string list" where
  "NOTIFICATION_TYPES = [''match'', ''message'', ''like'', ''view'', ''video_call'']"

subsection \<open>Match (models/Match.js)\<close>

datatype action = Like | Pass | Super_like | PendingAction

record match =
  match_id :: objectId
  user1Id :: objectId
  user2Id :: objectId
  user1Action :: action
  user2Action :: action
  isMatch :: bool
  matchedAt :: "time option"
  compatibility :: int
  createdAt :: time

subsection \<open>VideoCall (models/VideoCall.js)\<close>

datatype call_status = Pending | Active | Ended | Declined

text \<open>
  The REST route names a call \<open>call_<initiator>_<recipient>_<Date.now()>\<close>, the socket
  handler takes \<open>DailyService.generateCallId()\<close>, built from the clock and a random
  number.
\<close>

datatype call_name = RestCallId objectId objectId time | GeneratedCallId time nat

record video_call =
  vc_id :: objectId
  callId :: call_name
  participants :: "objectId list"
  initiatorId :: objectId
  status :: call_status
  startTime :: "time option"
  endTime :: "time option"
  duration :: int
  dailyRoomUrl :: "string option"
  dailyRoomName :: "string option"

subsection \<open>Conversation and Message (models/Conversation.js, models/Message.js)\<close>

record conversation =
  conv_id :: objectId
  conv_participants :: "objectId list"

record message =
  msg_id :: objectId
  conversationId :: objectId
  senderId :: objectId
  isDisappearing :: bool
  disappearTime :: int
  m_isRead :: bool
  m_readAt :: "time option"
  expiresAt :: "time option"

subsection \<open>Subscription (models/Subscription.js)\<close>

text \<open>
  The quota ledger compares calendar fields of two \<open>Date\<close> objects, so a date of the
  ledger carries the fields that \<open>getFullYear\<close>, \<open>getMonth\<close> and \<open>getDate\<close> read,
  and the milliseconds elapsed within that day.
\<close>

record js_date =
  getFullYear :: int
  getMonth :: int
  getDate :: int
  msOfDay :: int

record features =
  videoCallsPerDay :: int
  voiceCallsPerDay :: int
  likesPerDay :: int
  superLikesPerDay :: int

record usage =
  videoCallsToday :: int
  voiceCallsToday :: int
  likesToday :: int
  superLikesToday :: int
  lastResetDate :: js_date

record subscription =
  sub_userId :: objectId
  sub_plan :: plan
  sub_features :: features
  sub_usage :: usage

subsection \<open>The store\<close>

record db =
  users :: "user list"
  matches :: "match list"
  videoCalls :: "video_call list"
  notifications :: "notification list"
  conversations :: "conversation list"
  messages :: "message list"
  subscriptions :: "subscription list"

text \<open>
  A REST handler answers with \<open>res.status(s).json({success, message, ...})\<close> or hands an
  exception to the error middleware with \<open>next(error)\<close>.
\<close>

datatype response = Json nat bool string | NextError string

section \<open>Notification service (services/notificationService.js, src/unnamed/part_007)\<close>

text \<open>
  Schema validation of a new Notification: \<open>type\<close> is required and one of the enum
  values, \<open>title\<close> and \<open>message\<close> are required strings of bounded length (a required
  string must be non-empty), \<open>userId\<close> is required.
\<close>

definition required_string :: "js_value \<Rightarrow> bool" where
  "required_string v = (case v of JString s \<Rightarrow> s \<noteq> [] | _ \<Rightarrow> False)"

definition string_of :: "js_value \<Rightarrow> string" where
  "string_of v = (case v of JString s \<Rightarrow> s | _ \<Rightarrow> [])"

definition id_of :: "js_value \<Rightarrow> objectId option" where
  "id_of v = (case v of JId i \<Rightarrow> Some i | _ \<Rightarrow> None)"

definition createNotification ::
  "objectId \<Rightarrow> objectId option \<Rightarrow> js_value \<Rightarrow> notification list
     \<Rightarrow> string + (notification \<times> notification list)" where
  "createNotification newId userId notificationData ns =
     (let ty = get_prop notificationData ''type'';
          title = get_prop notificationData ''title'';
          msg = get_prop notificationData ''message'';
          fromUserId = get_prop notificationData ''fromUserId''
      in case userId of
           None \<Rightarrow> Inl ''Failed to create notification: Notification validation failed''
         | Some uid \<Rightarrow>
             if required_string ty \<and> string_of ty \<in> set NOTIFICATION_TYPES
                \<and> required_string title \<and> length (string_of title) \<le> 100
                \<and> required_string msg \<and> length (string_of msg) \<le> 500
             then (let n = \<lparr> n_id = newId, n_userId = uid, n_type = string_of ty,
                              n_title = string_of title, n_message = string_of msg,
                              n_fromUserId = id_of fromUserId, n_isRead = False,
                              n_readAt = None \<rparr>
                   in Inr (n, ns @ [n]))
             else Inl ''Failed to create notification: Notification validation failed'')"

section \<open>Match model and matching service\<close>

text \<open>The second pre-save hook of the Match schema.\<close>

definition match_check :: "time \<Rightarrow> match \<Rightarrow> match" where
  "match_check now m =
     (if user1Action m = Like \<and> user2Action m = Like
      then m\<lparr> isMatch := True,
               matchedAt := (case matchedAt m of None \<Rightarrow> Some now | Some t \<Rightarrow> Some t) \<rparr>
      else m\<lparr> isMatch := False, matchedAt := None \<rparr>)"

text \<open>
  \<open>save\<close> validates the document (compatibility between 0 and 100), runs the two
  pre-save hooks in the order of their registration and writes the document: a new one is
  appended unless the unique index on (user1Id, user2Id) rejects it, an existing one
  replaces the stored document with the same \<open>_id\<close>.
\<close>

definition match_pre_save :: "time \<Rightarrow> match \<Rightarrow> string + match" where
  "match_pre_save now m =
     (if compatibility m < 0 \<or> 100 < compatibility m then Inl ''Match validation failed''
      else if user1Id m = user2Id m then Inl ''Users cannot match with themselves''
      else Inr (match_check now m))"

definition replace_match :: "match \<Rightarrow> match list \<Rightarrow> match list" where
  "replace_match m ms = map (\<lambda>x. if match_id x = match_id m then m else x) ms"

definition save_new_match :: "time \<Rightarrow> match \<Rightarrow> match list \<Rightarrow> string + (match \<times> match list)" where
  "save_new_match now m ms =
     (case match_pre_save now m of
        Inl e \<Rightarrow> Inl e
      | Inr m' \<Rightarrow>
          if \<exists>x \<in> set ms. user1Id x = user1Id m' \<and> user2Id x = user2Id m'
          then Inl ''E11000 duplicate key error''
          else Inr (m', ms @ [m']))"

definition save_match :: "time \<Rightarrow> match \<Rightarrow> match list \<Rightarrow> string + (match \<times> match list)" where
  "save_match now m ms =
     (case match_pre_save now m of
        Inl e \<Rightarrow> Inl e
      | Inr m' \<Rightarrow> Inr (m', replace_match m' ms))"

definition findExistingMatch :: "objectId \<Rightarrow> objectId \<Rightarrow> match list \<Rightarrow> match option" where
  "findExistingMatch u1 u2 ms =
     find (\<lambda>m. (user1Id m = u1 \<and> user2Id m = u2) \<or> (user1Id m = u2 \<and> user2Id m = u1)) ms"

text \<open>
  \<open>MatchingService.processSwipe\<close>. The compatibility score is computed from the two
  profiles when both exist; the profiles are outside this development, so the score
  arrives as \<open>score\<close> (\<open>None\<close> when a profile is missing, which leaves the schema
  default 0). Every exception of the body is rethrown with a prefixed message.
\<close>

definition processSwipe ::
  "time \<Rightarrow> objectId \<Rightarrow> int option \<Rightarrow> objectId \<Rightarrow> objectId \<Rightarrow> action \<Rightarrow> match list
     \<Rightarrow> string + (match \<times> match list)" where
  "processSwipe now newId score userId targetUserId act ms =
     (case
        (case findExistingMatch userId targetUserId ms of
           Some existingMatch \<Rightarrow>
             if user1Id existingMatch = userId
             then (if user1Action existingMatch = PendingAction
                   then save_match now (existingMatch\<lparr> user1Action := act \<rparr>) ms
                   else Inl ''User has already swiped on this profile'')
             else (if user2Action existingMatch = PendingAction
                   then save_match now (existingMatch\<lparr> user2Action := act \<rparr>) ms
                   else Inl ''User has already swiped on this profile'')
         | None \<Rightarrow>
             save_new_match now
               \<lparr> match_id = newId, user1Id = userId, user2Id = targetUserId,
                 user1Action = act, user2Action = PendingAction, isMatch = False,
                 matchedAt = None,
                 compatibility = (case score of Some c \<Rightarrow> c | None \<Rightarrow> 0),
                 createdAt = now \<rparr> ms)
      of Inl e \<Rightarrow> Inl (''Failed to process swipe: '' @ e)
       | Inr r \<Rightarrow> Inr r)"

section \<open>Discovery routes (the discovery router, in src/middleware/upload.js)\<close>

text \<open>
  The handlers run after the authentication middleware, which loads the caller's User
  document into \<open>req.user\<close>; the handler takes it as \<open>reqUser\<close>. Fresh ObjectIds for
  the documents a handler may create are arguments as well.
\<close>

definition create_in_db :: "objectId \<Rightarrow> objectId option \<Rightarrow> js_value \<Rightarrow> db \<Rightarrow> string + db" where
  "create_in_db newId userId notificationData d =
     (case createNotification newId userId notificationData (notifications d) of
        Inl e \<Rightarrow> Inl e
      | Inr (n, ns) \<Rightarrow> Inr (d\<lparr> notifications := ns \<rparr>))"

text \<open>
  \<open>POST /swipe\<close>. The route calls \<open>createNotification(id, 'match', {...})\<close> and
  \<open>createNotification(id, 'like', {...})\<close>: the function has two parameters, so the
  string is its \<open>notificationData\<close> and the object literal is dropped. The two match
  notifications are started together under \<open>Promise.all\<close>: both run, and the handler
  fails when either fails.
\<close>

definition swipe_route ::
  "time \<Rightarrow> objectId \<Rightarrow> objectId \<Rightarrow> objectId \<Rightarrow> int option \<Rightarrow> user \<Rightarrow> objectId \<Rightarrow> action
     \<Rightarrow> db \<Rightarrow> response \<times> db" where
  "swipe_route now newId nId1 nId2 score reqUser targetUserId act d =
     (let userId = user_id reqUser in
      case find (\<lambda>u. user_id u = targetUserId) (users d) of
        None \<Rightarrow> (Json 404 False ''Target user not found'', d)
      | Some targetUser \<Rightarrow>
          if userId = targetUserId then (Json 400 False ''Cannot swipe on yourself'', d)
          else
            (case find (\<lambda>m. (user1Id m = userId \<and> user2Id m = targetUserId)
                            \<or> (user1Id m = targetUserId \<and> user2Id m = userId)) (matches d) of
               Some existingMatch \<Rightarrow> (Json 409 False ''You have already swiped on this user'', d)
             | None \<Rightarrow>
                 (case processSwipe now newId score userId targetUserId act (matches d) of
                    Inl e \<Rightarrow> (NextError e, d)
                  | Inr (result, ms') \<Rightarrow>
                      (let d1 = d\<lparr> matches := ms' \<rparr> in
                       if isMatch result then
                         (case create_in_db nId1 (Some userId) (JString ''match'') d1 of
                            Inl e \<Rightarrow>
                              (case create_in_db nId2 (Some targetUserId) (JString ''match'') d1 of
                                 Inl e' \<Rightarrow> (NextError e, d1)
                               | Inr d2 \<Rightarrow> (NextError e, d2))
                          | Inr d2 \<Rightarrow>
                              (case create_in_db nId2 (Some targetUserId) (JString ''match'') d2 of
                                 Inl e \<Rightarrow> (NextError e, d2)
                               | Inr d3 \<Rightarrow> (Json 200 True ''It's a match!'', d3)))
                       else if act = Like \<or> act = Super_like then
                         (case create_in_db nId1 (Some targetUserId) (JString ''like'') d1 of
                            Inl e \<Rightarrow> (NextError e, d1)
                          | Inr d2 \<Rightarrow> (Json 200 True ''Swipe recorded successfully'', d2))
                       else (Json 200 True ''Swipe recorded successfully'', d1)))))"

text \<open>
  \<open>POST /undo\<close>. \<open>Match.findOne({user1Id, createdAt: {$gte: now - 5 min}})\<close> sorted by
  \<open>createdAt\<close> descending yields the newest candidate; \<open>findByIdAndDelete\<close> removes the
  one document with that \<open>_id\<close>.
\<close>

definition latest_match :: "match list \<Rightarrow> match option" where
  "latest_match ms =
     (case ms of
        [] \<Rightarrow> None
      | m # rest \<Rightarrow> Some (fold (\<lambda>x best. if createdAt best < createdAt x then x else best) rest m))"

definition delete_match_by_id :: "objectId \<Rightarrow> match list \<Rightarrow> match list" where
  "delete_match_by_id i ms =
     (case find (\<lambda>m. match_id m = i) ms of None \<Rightarrow> ms | Some m \<Rightarrow> remove1 m ms)"

definition undo_route :: "time \<Rightarrow> user \<Rightarrow> db \<Rightarrow> response \<times> db" where
  "undo_route now reqUser d =
     (let userId = user_id reqUser in
      if subscription_plan reqUser = Free
      then (Json 403 False ''Undo feature requires premium subscription'', d)
      else
        (case latest_match
                (filter (\<lambda>m. user1Id m = userId \<and> now - 5 * 60 * 1000 \<le> createdAt m) (matches d)) of
           None \<Rightarrow> (Json 404 False ''No recent swipe found to undo'', d)
         | Some lastMatch \<Rightarrow>
             (Json 200 True ''Last swipe undone successfully'',
              d\<lparr> matches := delete_match_by_id (match_id lastMatch) (matches d) \<rparr>)))"

section \<open>Room provider (services/dailyService.js)\<close>

text \<open>
  The provider is an external HTTP service. What it answers is an argument of the model:
  the name and URL of the created room (\<open>None\<close> when the request fails), whether a
  deletion goes through (a 404 counts as success in the source), and the issued token.
\<close>

record daily_api =
  createRoomResponse :: "(string \<times> string) option"
  deleteRoomOk :: bool
  tokenResponse :: "string option"

definition createRoom :: "daily_api \<Rightarrow> string + js_value" where
  "createRoom api =
     (case createRoomResponse api of
        None \<Rightarrow> Inl ''Failed to create Daily.co room''
      | Some (rname, rurl) \<Rightarrow>
          Inr (JObject [(''roomName'', JString rname), (''roomUrl'', JString rurl),
                        (''config'', JUndefined)]))"

definition deleteRoom :: "daily_api \<Rightarrow> string + bool" where
  "deleteRoom api = (if deleteRoomOk api then Inr True else Inl ''Failed to delete Daily.co room'')"

definition generateRoomToken :: "daily_api \<Rightarrow> string + string" where
  "generateRoomToken api =
     (case tokenResponse api of
        None \<Rightarrow> Inl ''Failed to generate room token''
      | Some t \<Rightarrow> Inr t)"

section \<open>VideoCall model (models/VideoCall.js)\<close>

definition required_field :: "string option \<Rightarrow> bool" where
  "required_field v = (case v of None \<Rightarrow> False | Some s \<Rightarrow> s \<noteq> [])"

definition string_field :: "js_value \<Rightarrow> string option" where
  "string_field v = (case v of JString s \<Rightarrow> Some s | _ \<Rightarrow> None)"

text \<open>
  \<open>save\<close>: schema validation (\<open>dailyRoomUrl\<close> and \<open>dailyRoomName\<close> are required), the
  participants hook, then the duration hook (\<open>!this.duration\<close> holds for 0).
\<close>

definition video_call_pre_save :: "video_call \<Rightarrow> string + video_call" where
  "video_call_pre_save c =
     (if \<not> required_field (dailyRoomUrl c) \<or> \<not> required_field (dailyRoomName c)
      then Inl ''VideoCall validation failed''
      else if length (participants c) \<noteq> 2
      then Inl ''Video call must have exactly 2 participants''
      else if participants c ! 0 = participants c ! 1
      then Inl ''Participants must be different users''
      else if initiatorId c \<notin> set (participants c)
      then Inl ''Initiator must be one of the participants''
      else Inr (case (status c, startTime c, endTime c) of
                  (Ended, Some st, Some et) \<Rightarrow>
                    if duration c = 0 then c\<lparr> duration := (et - st) div 1000 \<rparr> else c
                | _ \<Rightarrow> c))"

definition save_video_call ::
  "video_call \<Rightarrow> video_call list \<Rightarrow> string + (video_call \<times> video_call list)" where
  "save_video_call c cs =
     (case video_call_pre_save c of
        Inl e \<Rightarrow> Inl e
      | Inr c' \<Rightarrow> Inr (c', map (\<lambda>x. if vc_id x = vc_id c' then c' else x) cs))"

definition save_new_video_call ::
  "video_call \<Rightarrow> video_call list \<Rightarrow> string + (video_call \<times> video_call list)" where
  "save_new_video_call c cs =
     (case video_call_pre_save c of
        Inl e \<Rightarrow> Inl e
      | Inr c' \<Rightarrow>
          if callId c' \<in> callId ` set cs then Inl ''E11000 duplicate key error''
          else Inr (c', cs @ [c']))"

definition status_string :: "call_status \<Rightarrow> string" where
  "status_string s =
     (case s of Pending \<Rightarrow> ''pending'' | Active \<Rightarrow> ''active'' | Ended \<Rightarrow> ''ended''
              | Declined \<Rightarrow> ''declined'')"

section \<open>Video call routes (routes/videocall.js)\<close>

text \<open>
  The handler bodies, after the authentication, rate-limit and validation middleware.
  Each calls \<open>createNotification(id, 'video_call', {...})\<close>; the function has two
  parameters, so the string is its \<open>notificationData\<close> and the object literal is dropped.
\<close>

definition initiate_route ::
  "time \<Rightarrow> objectId \<Rightarrow> objectId \<Rightarrow> daily_api \<Rightarrow> user \<Rightarrow> objectId \<Rightarrow> db \<Rightarrow> response \<times> db" where
  "initiate_route now newId nId api reqUser recipientUserId d =
     (let initiator = user_id reqUser in
      case find (\<lambda>u. user_id u = recipientUserId) (users d) of
        None \<Rightarrow> (Json 404 False ''Recipient not found'', d)
      | Some recipient \<Rightarrow>
          (case find (\<lambda>m. ((user1Id m = initiator \<and> user2Id m = recipientUserId)
                            \<or> (user1Id m = recipientUserId \<and> user2Id m = initiator))
                           \<and> isMatch m) (matches d) of
             None \<Rightarrow> (Json 403 False ''Users are not matched. Cannot initiate video call.'', d)
           | Some mt \<Rightarrow>
               (case find (\<lambda>c. initiator \<in> set (participants c)
                                \<and> recipientUserId \<in> set (participants c)
                                \<and> (status c = Pending \<or> status c = Active)) (videoCalls d) of
                  Some activeCall \<Rightarrow>
                    (Json 409 False ''There is already an active call between these users'', d)
                | None \<Rightarrow>
                    (case createRoom api of
                       Inl e \<Rightarrow> (NextError e, d)
                     | Inr roomData \<Rightarrow>
                         (case save_new_video_call
                                 \<lparr> vc_id = newId,
                                   callId = RestCallId initiator recipientUserId now,
                                   participants = [initiator, recipientUserId],
                                   initiatorId = initiator, status = Pending,
                                   startTime = Some now, endTime = None, duration = 0,
                                   dailyRoomUrl = string_field (get_prop roomData ''url''),
                                   dailyRoomName = None \<rparr> (videoCalls d) of
                            Inl e \<Rightarrow> (NextError e, d)
                          | Inr (videoCall, cs) \<Rightarrow>
                              (let d1 = d\<lparr> videoCalls := cs \<rparr> in
                               case create_in_db nId (Some recipientUserId)
                                      (JString ''video_call'') d1 of
                                 Inl e \<Rightarrow> (NextError e, d1)
                               | Inr d2 \<Rightarrow>
                                   (Json 201 True ''Video call initiated successfully'', d2)))))))"

definition accept_route ::
  "time \<Rightarrow> objectId \<Rightarrow> daily_api \<Rightarrow> user \<Rightarrow> objectId \<Rightarrow> db \<Rightarrow> response \<times> db" where
  "accept_route now nId api reqUser cid d =
     (let userId = user_id reqUser in
      case find (\<lambda>c. vc_id c = cid) (videoCalls d) of
        None \<Rightarrow> (Json 404 False ''Video call not found'', d)
      | Some videoCall \<Rightarrow>
          if userId \<notin> set (participants videoCall)
          then (Json 403 False ''Access denied to this video call'', d)
          else if status videoCall \<noteq> Pending
          then (Json 400 False (''Call is already '' @ status_string (status videoCall)), d)
          else
            (case save_video_call (videoCall\<lparr> status := Active, startTime := Some now \<rparr>)
                    (videoCalls d) of
               Inl e \<Rightarrow> (NextError e, d)
             | Inr (saved, cs) \<Rightarrow>
                 (let d1 = d\<lparr> videoCalls := cs \<rparr> in
                  case generateRoomToken api of
                    Inl e \<Rightarrow> (NextError e, d1)
                  | Inr roomToken \<Rightarrow>
                      (case create_in_db nId (find (\<lambda>i. i \<noteq> userId) (participants saved))
                              (JString ''video_call'') d1 of
                         Inl e \<Rightarrow> (NextError e, d1)
                       | Inr d2 \<Rightarrow> (Json 200 True ''Video call accepted successfully'', d2)))))"

definition decline_route ::
  "time \<Rightarrow> objectId \<Rightarrow> daily_api \<Rightarrow> user \<Rightarrow> objectId \<Rightarrow> db \<Rightarrow> response \<times> db" where
  "decline_route now nId api reqUser cid d =
     (let userId = user_id reqUser in
      case find (\<lambda>c. vc_id c = cid) (videoCalls d) of
        None \<Rightarrow> (Json 404 False ''Video call not found'', d)
      | Some videoCall \<Rightarrow>
          if userId \<notin> set (participants videoCall)
          then (Json 403 False ''Access denied to this video call'', d)
          else if status videoCall \<noteq> Pending
          then (Json 400 False (''Call is already '' @ status_string (status videoCall)), d)
          else
            (case save_video_call (videoCall\<lparr> status := Declined, endTime := Some now \<rparr>)
                    (videoCalls d) of
               Inl e \<Rightarrow> (NextError e, d)
             | Inr (saved, cs) \<Rightarrow>
                 (let d1 = d\<lparr> videoCalls := cs \<rparr> in
                  case deleteRoom api of
                    Inl e \<Rightarrow> (NextError e, d1)
                  | Inr ok \<Rightarrow>
                      (case create_in_db nId (find (\<lambda>i. i \<noteq> userId) (participants saved))
                              (JString ''video_call'') d1 of
                         Inl e \<Rightarrow> (NextError e, d1)
                       | Inr d2 \<Rightarrow> (Json 200 True ''Video call declined successfully'', d2)))))"

text \<open>
  \<open>PUT /:callId/end\<close>. \<open>endTime - videoCall.startTime\<close> with no stored start time is
  \<open>NaN\<close>, which the Number path rejects on save.
\<close>

definition end_route ::
  "time \<Rightarrow> objectId \<Rightarrow> daily_api \<Rightarrow> user \<Rightarrow> objectId \<Rightarrow> db \<Rightarrow> response \<times> db" where
  "end_route now nId api reqUser cid d =
     (let userId = user_id reqUser in
      case find (\<lambda>c. vc_id c = cid) (videoCalls d) of
        None \<Rightarrow> (Json 404 False ''Video call not found'', d)
      | Some videoCall \<Rightarrow>
          if userId \<notin> set (participants videoCall)
          then (Json 403 False ''Access denied to this video call'', d)
          else if status videoCall \<noteq> Active
          then (Json 400 False ''Call is not active'', d)
          else
            (case startTime videoCall of
               None \<Rightarrow> (NextError ''VideoCall validation failed'', d)
             | Some st \<Rightarrow>
                 (case save_video_call
                         (videoCall\<lparr> status := Ended, endTime := Some now,
                                     duration := (now - st) div 1000 \<rparr>) (videoCalls d) of
                    Inl e \<Rightarrow> (NextError e, d)
                  | Inr (saved, cs) \<Rightarrow>
                      (let d1 = d\<lparr> videoCalls := cs \<rparr> in
                       case deleteRoom api of
                         Inl e \<Rightarrow> (NextError e, d1)
                       | Inr ok \<Rightarrow>
                           (case create_in_db nId
                                   (find (\<lambda>i. i \<noteq> userId) (participants saved))
                                   (JString ''video_call'') d1 of
                              Inl e \<Rightarrow> (NextError e, d1)
                            | Inr d2 \<Rightarrow>
                                (Json 200 True ''Video call ended successfully'', d2))))))"

section \<open>Video call socket handlers (sockets/videocall.js, src/unnamed/part_011)\<close>

text \<open>
  A handler runs on an authenticated socket whose \<open>socket.userId\<close> is \<open>userId\<close>. What it
  emits is returned in order: an event to the calling socket (with the error code for
  \<open>call_error\<close>), or an event to a room. Every exception of a handler body is caught and
  answered with a \<open>call_error\<close>.
\<close>

datatype room = UserRoom objectId | CallRoom objectId | ConversationRoom objectId

datatype emission =
    ToSocket string string
  | ToRoom room string
  | Broadcast string objectId

text \<open>
  \<open>call_initiate\<close>; \<open>recipientSockets\<close> is the number of sockets in the recipient's
  personal room.
\<close>

definition socket_call_initiate ::
  "time \<Rightarrow> nat \<Rightarrow> objectId \<Rightarrow> objectId \<Rightarrow> daily_api \<Rightarrow> nat \<Rightarrow> objectId \<Rightarrow> objectId \<Rightarrow> db
     \<Rightarrow> emission list \<times> db" where
  "socket_call_initiate now rnd newId nId api recipientSockets userId recipientUserId d =
     (if recipientSockets = 0 then ([ToSocket ''call_error'' ''RECIPIENT_OFFLINE''], d)
      else
        (case find (\<lambda>c. userId \<in> set (participants c)
                         \<and> recipientUserId \<in> set (participants c)
                         \<and> (status c = Pending \<or> status c = Active)) (videoCalls d) of
           Some activeCall \<Rightarrow> ([ToSocket ''call_error'' ''CALL_EXISTS''], d)
         | None \<Rightarrow>
             (case createRoom api of
                Inl e \<Rightarrow> ([ToSocket ''call_error'' ''INITIATION_FAILED''], d)
              | Inr roomData \<Rightarrow>
                  (case save_new_video_call
                          \<lparr> vc_id = newId, callId = GeneratedCallId now rnd,
                            participants = [userId, recipientUserId],
                            initiatorId = userId, status = Pending,
                            startTime = Some now, endTime = None, duration = 0,
                            dailyRoomUrl = string_field (get_prop roomData ''roomUrl''),
                            dailyRoomName = None \<rparr> (videoCalls d) of
                     Inl e \<Rightarrow> ([ToSocket ''call_error'' ''INITIATION_FAILED''], d)
                   | Inr (videoCall, cs) \<Rightarrow>
                       (let d1 = d\<lparr> videoCalls := cs \<rparr>;
                            out = [ToRoom (UserRoom recipientUserId) ''call_initiate'']
                        in case create_in_db nId (Some recipientUserId)
                                  (JString ''video_call'') d1 of
                             Inl e \<Rightarrow> (out @ [ToSocket ''call_error'' ''INITIATION_FAILED''], d1)
                           | Inr d2 \<Rightarrow> (out @ [ToSocket ''call_initiated'' []], d2))))))"

definition socket_call_accept ::
  "time \<Rightarrow> objectId \<Rightarrow> daily_api \<Rightarrow> objectId \<Rightarrow> objectId \<Rightarrow> db \<Rightarrow> emission list \<times> db" where
  "socket_call_accept now nId api userId cid d =
     (case find (\<lambda>c. vc_id c = cid) (videoCalls d) of
        None \<Rightarrow> ([ToSocket ''call_error'' ''CALL_NOT_FOUND''], d)
      | Some videoCall \<Rightarrow>
          if userId \<notin> set (participants videoCall)
          then ([ToSocket ''call_error'' ''ACCESS_DENIED''], d)
          else if status videoCall \<noteq> Pending
          then ([ToSocket ''call_error'' ''INVALID_STATUS''], d)
          else
            (case save_video_call (videoCall\<lparr> status := Active, startTime := Some now \<rparr>)
                    (videoCalls d) of
               Inl e \<Rightarrow> ([ToSocket ''call_error'' ''ACCEPT_FAILED''], d)
             | Inr (saved, cs) \<Rightarrow>
                 (let d1 = d\<lparr> videoCalls := cs \<rparr> in
                  case generateRoomToken api of
                    Inl e \<Rightarrow> ([ToSocket ''call_error'' ''ACCEPT_FAILED''], d1)
                  | Inr roomToken \<Rightarrow>
                      (let out = [ToRoom (CallRoom (vc_id saved)) ''call_accept''] in
                       case create_in_db nId (find (\<lambda>i. i \<noteq> userId) (participants saved))
                              (JString ''video_call'') d1 of
                         Inl e \<Rightarrow> (out @ [ToSocket ''call_error'' ''ACCEPT_FAILED''], d1)
                       | Inr d2 \<Rightarrow> (out, d2)))))"

definition socket_call_decline ::
  "time \<Rightarrow> objectId \<Rightarrow> daily_api \<Rightarrow> objectId \<Rightarrow> objectId \<Rightarrow> db \<Rightarrow> emission list \<times> db" where
  "socket_call_decline now nId api userId cid d =
     (case find (\<lambda>c. vc_id c = cid) (videoCalls d) of
        None \<Rightarrow> ([ToSocket ''call_error'' ''CALL_NOT_FOUND''], d)
      | Some videoCall \<Rightarrow>
          if userId \<notin> set (participants videoCall)
          then ([ToSocket ''call_error'' ''ACCESS_DENIED''], d)
          else if status videoCall \<noteq> Pending
          then ([ToSocket ''call_error'' ''INVALID_STATUS''], d)
          else
            (case save_video_call (videoCall\<lparr> status := Declined, endTime := Some now \<rparr>)
                    (videoCalls d) of
               Inl e \<Rightarrow> ([ToSocket ''call_error'' ''DECLINE_FAILED''], d)
             | Inr (saved, cs) \<Rightarrow>
                 (let d1 = d\<lparr> videoCalls := cs \<rparr> in
                  case deleteRoom api of
                    Inl e \<Rightarrow> ([ToSocket ''call_error'' ''DECLINE_FAILED''], d1)
                  | Inr ok \<Rightarrow>
                      (let out = [ToRoom (CallRoom (vc_id saved)) ''call_decline''] in
                       case create_in_db nId (find (\<lambda>i. i \<noteq> userId) (participants saved))
                              (JString ''video_call'') d1 of
                         Inl e \<Rightarrow> (out @ [ToSocket ''call_error'' ''DECLINE_FAILED''], d1)
                       | Inr d2 \<Rightarrow> (out, d2)))))"

text \<open>
  \<open>call_end\<close>. The duration is computed only for an active call with a start time; the
  status is then set to \<open>ended\<close> whatever it was. The notification is attempted only when
  another participant is found.
\<close>

definition socket_call_end ::
  "time \<Rightarrow> objectId \<Rightarrow> daily_api \<Rightarrow> objectId \<Rightarrow> objectId \<Rightarrow> db \<Rightarrow> emission list \<times> db" where
  "socket_call_end now nId api userId cid d =
     (case find (\<lambda>c. vc_id c = cid) (videoCalls d) of
        None \<Rightarrow> ([ToSocket ''call_error'' ''CALL_NOT_FOUND''], d)
      | Some videoCall \<Rightarrow>
          if userId \<notin> set (participants videoCall)
          then ([ToSocket ''call_error'' ''ACCESS_DENIED''], d)
          else
            (let timed =
                   (case (status videoCall, startTime videoCall) of
                      (Active, Some st) \<Rightarrow>
                        videoCall\<lparr> endTime := Some now, duration := (now - st) div 1000 \<rparr>
                    | _ \<Rightarrow> videoCall)
             in case save_video_call (timed\<lparr> status := Ended \<rparr>) (videoCalls d) of
                  Inl e \<Rightarrow> ([ToSocket ''call_error'' ''END_FAILED''], d)
                | Inr (saved, cs) \<Rightarrow>
                    (let d1 = d\<lparr> videoCalls := cs \<rparr> in
                     case deleteRoom api of
                       Inl e \<Rightarrow> ([ToSocket ''call_error'' ''END_FAILED''], d1)
                     | Inr ok \<Rightarrow>
                         (let out = [ToRoom (CallRoom (vc_id saved)) ''call_end''] in
                          case find (\<lambda>i. i \<noteq> userId) (participants saved) of
                            None \<Rightarrow> (out, d1)
                          | Some otherParticipantId \<Rightarrow>
                              (case create_in_db nId (Some otherParticipantId)
                                      (JString ''video_call'') d1 of
                                 Inl e \<Rightarrow> (out @ [ToSocket ''call_error'' ''END_FAILED''], d1)
                               | Inr d2 \<Rightarrow> (out, d2))))))"

section \<open>Quota ledger (models/Subscription.js, services/rateLimitService.js)\<close>

text \<open>
  The methods address limits and counters by computed keys, \<open>`${actionType}PerDay`\<close> and
  \<open>`${actionType}Today`\<close>. A key that is not a path of the schema reads as \<open>undefined\<close>.
\<close>

definition features_get :: "features \<Rightarrow> string \<Rightarrow> int option" where
  "features_get f k =
     (if k = ''videoCallsPerDay'' then Some (videoCallsPerDay f)
      else if k = ''voiceCallsPerDay'' then Some (voiceCallsPerDay f)
      else if k = ''likesPerDay'' then Some (likesPerDay f)
      else if k = ''superLikesPerDay'' then Some (superLikesPerDay f)
      else None)"

definition usage_get :: "usage \<Rightarrow> string \<Rightarrow> int option" where
  "usage_get u k =
     (if k = ''videoCallsToday'' then Some (videoCallsToday u)
      else if k = ''voiceCallsToday'' then Some (voiceCallsToday u)
      else if k = ''likesToday'' then Some (likesToday u)
      else if k = ''superLikesToday'' then Some (superLikesToday u)
      else None)"

text \<open>
  \<open>this.usage[usageKey] += 1\<close>; an assignment to a key outside the schema is not part of
  the stored document.
\<close>

definition usage_incr :: "usage \<Rightarrow> string \<Rightarrow> usage" where
  "usage_incr u k =
     (if k = ''videoCallsToday'' then u\<lparr> videoCallsToday := videoCallsToday u + 1 \<rparr>
      else if k = ''voiceCallsToday'' then u\<lparr> voiceCallsToday := voiceCallsToday u + 1 \<rparr>
      else if k = ''likesToday'' then u\<lparr> likesToday := likesToday u + 1 \<rparr>
      else if k = ''superLikesToday'' then u\<lparr> superLikesToday := superLikesToday u + 1 \<rparr>
      else u)"

text \<open>The comparison \<open>a < b\<close> of JavaScript: false when an operand is \<open>undefined\<close>.\<close>

definition js_less :: "int option \<Rightarrow> int option \<Rightarrow> bool" where
  "js_less a b = (case (a, b) of (Some x, Some y) \<Rightarrow> x < y | _ \<Rightarrow> False)"

definition resetDailyUsageIfNeeded :: "js_date \<Rightarrow> subscription \<Rightarrow> subscription" where
  "resetDailyUsageIfNeeded now s =
     (let lastReset = lastResetDate (sub_usage s) in
      if getDate now \<noteq> getDate lastReset \<or> getMonth now \<noteq> getMonth lastReset
         \<or> getFullYear now \<noteq> getFullYear lastReset
      then s\<lparr> sub_usage := \<lparr> videoCallsToday = 0, voiceCallsToday = 0, likesToday = 0,
                              superLikesToday = 0, lastResetDate = now \<rparr> \<rparr>
      else s)"

text \<open>
  \<open>canPerformAction\<close> returns its verdict; the document it was called on is changed by
  the reset, so the model returns that document as well.
\<close>

definition canPerformAction :: "js_date \<Rightarrow> string \<Rightarrow> subscription \<Rightarrow> bool \<times> subscription" where
  "canPerformAction now actionType s0 =
     (let s = resetDailyUsageIfNeeded now s0;
          featureKey = actionType @ ''PerDay'';
          usageKey = actionType @ ''Today'';
          limit = features_get (sub_features s) featureKey;
          currentUsage = usage_get (sub_usage s) usageKey
      in (if limit = Some (- 1) then True else js_less currentUsage limit, s))"

text \<open>
  The model method \<open>incrementUsage\<close>, up to its \<open>save\<close>. The plan is not modified, so the
  pre-save hook that reloads the limits from the plan table does nothing.
\<close>

definition subscription_incrementUsage :: "js_date \<Rightarrow> string \<Rightarrow> subscription \<Rightarrow> subscription" where
  "subscription_incrementUsage now actionType s0 =
     (let s = resetDailyUsageIfNeeded now s0;
          usageKey = actionType @ ''Today''
      in s\<lparr> sub_usage := usage_incr (sub_usage s) usageKey \<rparr>)"

text \<open>\<open>userId\<close> is a unique path of the schema; a saved document replaces the stored one.\<close>

definition save_subscription :: "subscription \<Rightarrow> subscription list \<Rightarrow> subscription list" where
  "save_subscription s ss = map (\<lambda>x. if sub_userId x = sub_userId s then s else x) ss"

text \<open>
  \<open>RateLimitService.checkFeatureLimit\<close> and \<open>incrementUsage\<close>; the Redis client is
  \<open>null\<close>. A missing subscription throws inside the \<open>try\<close>, and the \<open>catch\<close> returns
  false.
\<close>

definition checkFeatureLimit :: "js_date \<Rightarrow> objectId \<Rightarrow> string \<Rightarrow> db \<Rightarrow> bool" where
  "checkFeatureLimit now userId featureType d =
     (case find (\<lambda>s. sub_userId s = userId) (subscriptions d) of
        None \<Rightarrow> False
      | Some s \<Rightarrow> fst (canPerformAction now featureType s))"

definition incrementUsage :: "js_date \<Rightarrow> objectId \<Rightarrow> string \<Rightarrow> db \<Rightarrow> bool \<times> db" where
  "incrementUsage now userId featureType d =
     (case find (\<lambda>s. sub_userId s = userId) (subscriptions d) of
        None \<Rightarrow> (False, d)
      | Some s \<Rightarrow>
          (True, d\<lparr> subscriptions :=
                      save_subscription (subscription_incrementUsage now featureType s)
                        (subscriptions d) \<rparr>))"

text \<open>
  The same run of \<open>checkFeatureLimit\<close> with all it leaves behind: the verdict, the
  loaded document as \<open>canPerformAction\<close> left it (\<open>None\<close> when no subscription was
  found), and the store. The method never calls \<open>save\<close>, so the store is the one it
  started from.
\<close>

definition checkFeatureLimit_run ::
  "js_date \<Rightarrow> objectId \<Rightarrow> string \<Rightarrow> db \<Rightarrow> bool \<times> subscription option \<times> db" where
  "checkFeatureLimit_run now userId featureType d =
     (case find (\<lambda>s. sub_userId s = userId) (subscriptions d) of
        None \<Rightarrow> (False, None, d)
      | Some s \<Rightarrow>
          (let r = canPerformAction now featureType s in (fst r, Some (snd r), d)))"

definition checkVideoCallLimit :: "js_date \<Rightarrow> objectId \<Rightarrow> db \<Rightarrow> bool" where
  "checkVideoCallLimit now userId d = checkFeatureLimit now userId ''videoCalls'' d"

definition checkVoiceCallLimit :: "js_date \<Rightarrow> objectId \<Rightarrow> db \<Rightarrow> bool" where
  "checkVoiceCallLimit now userId d = checkFeatureLimit now userId ''voiceCalls'' d"

definition checkLikeLimit :: "js_date \<Rightarrow> objectId \<Rightarrow> db \<Rightarrow> bool" where
  "checkLikeLimit now userId d = checkFeatureLimit now userId ''likes'' d"

definition checkSuperLikeLimit :: "js_date \<Rightarrow> objectId \<Rightarrow> db \<Rightarrow> bool" where
  "checkSuperLikeLimit now userId d = checkFeatureLimit now userId ''superLikes'' d"

definition checkMessageLimit :: "js_date \<Rightarrow> objectId \<Rightarrow> db \<Rightarrow> bool" where
  "checkMessageLimit now userId d = checkFeatureLimit now userId ''messages'' d"

text \<open>
  \<open>SUBSCRIPTION_CONSTANTS.FEATURES\<close> (src/unnamed/part_000), the defaults of the limits
  of a plan.
\<close>

definition plan_features :: "plan \<Rightarrow> features" where
  "plan_features p =
     (case p of
        Free \<Rightarrow> \<lparr> videoCallsPerDay = 2, voiceCallsPerDay = 5, likesPerDay = 20,
                   superLikesPerDay = 1 \<rparr>
      | Premium \<Rightarrow> \<lparr> videoCallsPerDay = 10, voiceCallsPerDay = 20, likesPerDay = 50,
                      superLikesPerDay = 5 \<rparr>
      | Platinum \<Rightarrow> \<lparr> videoCallsPerDay = - 1, voiceCallsPerDay = - 1, likesPerDay = - 1,
                       superLikesPerDay = 10 \<rparr>)"

text \<open>The features that have a limit and a counter in the Subscription schema.\<close>

definition schema_features :: "string list" where
  "schema_features = [''videoCalls'', ''voiceCalls'', ''likes'', ''superLikes'']"

text \<open>
  The order of calendar days that the claims about the reset speak of: \<open>later_day a b\<close>
  when the day of \<open>a\<close> comes after the day of \<open>b\<close>.
\<close>

definition later_day :: "js_date \<Rightarrow> js_date \<Rightarrow> bool" where
  "later_day a b =
     (getFullYear b < getFullYear a
      \<or> (getFullYear b = getFullYear a
          \<and> (getMonth b < getMonth a \<or> (getMonth b = getMonth a \<and> getDate b < getDate a))))"

definition same_day :: "js_date \<Rightarrow> js_date \<Rightarrow> bool" where
  "same_day a b =
     (getFullYear a = getFullYear b \<and> getMonth a = getMonth b \<and> getDate a = getDate b)"

definition fresh_usage :: "js_date \<Rightarrow> usage" where
  "fresh_usage now = \<lparr> videoCallsToday = 0, voiceCallsToday = 0, likesToday = 0,
                        superLikesToday = 0, lastResetDate = now \<rparr>"

section \<open>The call state machine of the specification\<close>

text \<open>
  The transitions the specification allows: from \<open>pending\<close> to \<open>active\<close> or \<open>declined\<close>,
  from \<open>active\<close> to \<open>ended\<close>, none from \<open>ended\<close> or \<open>declined\<close>. A handler run is in
  order when every stored call keeps its \<open>_id\<close> and either keeps its status or takes an
  allowed transition.
\<close>

definition allowed_transition :: "call_status \<Rightarrow> call_status \<Rightarrow> bool" where
  "allowed_transition s t =
     ((s = Pending \<and> (t = Active \<or> t = Declined)) \<or> (s = Active \<and> t = Ended))"

definition calls_step_ok :: "video_call list \<Rightarrow> video_call list \<Rightarrow> bool" where
  "calls_step_ok cs cs' =
     list_all2 (\<lambda>c c'. vc_id c' = vc_id c
                  \<and> (status c' = status c \<or> allowed_transition (status c) (status c'))) cs cs'"

section \<open>Presence (sockets/index.js)\<close>

text \<open>
  The socket layer: the connected sockets with the user each was authenticated as, the
  rooms they joined, and what has been emitted so far.
\<close>

record io_state =
  sockets :: "(nat \<times> objectId) list"
  joined :: "(nat \<times> room) list"
  emitted :: "emission list"

text \<open>\<open>User.findByIdAndUpdate(id, {isOnline, lastSeen})\<close>.\<close>

definition set_presence :: "objectId \<Rightarrow> bool \<Rightarrow> time \<Rightarrow> user list \<Rightarrow> user list" where
  "set_presence uid online now us =
     map (\<lambda>u. if user_id u = uid then u\<lparr> isOnline := online, lastSeen := now \<rparr> else u) us"

text \<open>
  The connection handler, run for a socket \<open>sid\<close> that passed the authentication
  middleware as user \<open>uid\<close>. \<open>dbOk\<close> tells whether the store accepts the update; when
  it throws, the \<open>catch\<close> skips the join and the broadcast.
\<close>

definition on_connection ::
  "time \<Rightarrow> bool \<Rightarrow> nat \<Rightarrow> objectId \<Rightarrow> db \<times> io_state \<Rightarrow> db \<times> io_state" where
  "on_connection now dbOk sid uid st =
     (let d = fst st;
          io = (snd st)\<lparr> sockets := sockets (snd st) @ [(sid, uid)] \<rparr>
      in if dbOk
         then (d\<lparr> users := set_presence uid True now (users d) \<rparr>,
               io\<lparr> joined := joined io @ [(sid, UserRoom uid)],
                   emitted := emitted io @ [Broadcast ''user_online'' uid] \<rparr>)
         else (d, io))"

text \<open>
  The \<open>disconnect\<close> handler of that socket; the socket has left the server and its rooms
  when the handler runs.
\<close>

definition on_disconnect ::
  "time \<Rightarrow> bool \<Rightarrow> nat \<Rightarrow> objectId \<Rightarrow> db \<times> io_state \<Rightarrow> db \<times> io_state" where
  "on_disconnect now dbOk sid uid st =
     (let d = fst st;
          io = (snd st)\<lparr> sockets := filter (\<lambda>s. fst s \<noteq> sid) (sockets (snd st)),
                          joined := filter (\<lambda>j. fst j \<noteq> sid) (joined (snd st)) \<rparr>
      in if dbOk
         then (d\<lparr> users := set_presence uid False now (users d) \<rparr>,
               io\<lparr> emitted := emitted io @ [Broadcast ''user_offline'' uid] \<rparr>)
         else (d, io))"

text \<open>The \<open>online_status\<close> handler: the client sets its own flag.\<close>

definition on_online_status ::
  "time \<Rightarrow> bool \<Rightarrow> objectId \<Rightarrow> bool \<Rightarrow> db \<times> io_state \<Rightarrow> db \<times> io_state" where
  "on_online_status now dbOk uid online st =
     (let d = fst st; io = snd st
      in if dbOk
         then (d\<lparr> users := set_presence uid online now (users d) \<rparr>,
               io\<lparr> emitted := emitted io
                      @ [Broadcast (if online then ''user_online'' else ''user_offline'') uid] \<rparr>)
         else (d, io))"

text \<open>
  \<open>userSchema.methods.setOnlineStatus\<close> (models/User.js), which login and logout
  (routes/auth.js) call on the user's document; the save skips validation.
\<close>

definition setOnlineStatus :: "objectId \<Rightarrow> bool \<Rightarrow> time \<Rightarrow> user list \<Rightarrow> user list" where
  "setOnlineStatus uid online now us =
     map (\<lambda>u. if user_id u = uid
              then (if online then u\<lparr> isOnline := True, lastSeen := now \<rparr>
                    else u\<lparr> isOnline := False \<rparr>)
              else u) us"

definition user_online :: "objectId \<Rightarrow> db \<Rightarrow> bool option" where
  "user_online uid d = map_option isOnline (find (\<lambda>u. user_id u = uid) (users d))"

definition connection_count :: "objectId \<Rightarrow> io_state \<Rightarrow> nat" where
  "connection_count uid io = length (filter (\<lambda>s. snd s = uid) (sockets io))"

section \<open>Read receipts\<close>

text \<open>
  \<open>save\<close> of a Message runs the expiry hook (\<open>setHours(getHours() + disappearTime)\<close>,
  taken as that many hours of 3600000 ms) and replaces the stored document.
\<close>

definition message_pre_save :: "time \<Rightarrow> message \<Rightarrow> message" where
  "message_pre_save now m =
     (if isDisappearing m \<and> expiresAt m = None
      then m\<lparr> expiresAt := Some (now + disappearTime m * 3600000) \<rparr>
      else m)"

definition save_message :: "time \<Rightarrow> message \<Rightarrow> message list \<Rightarrow> message \<times> message list" where
  "save_message now m ms =
     (let m' = message_pre_save now m
      in (m', map (\<lambda>x. if msg_id x = msg_id m' then m' else x) ms))"

text \<open>\<open>messageSchema.methods.markAsRead\<close> (models/Message.js).\<close>

definition message_markAsRead :: "time \<Rightarrow> message \<Rightarrow> message list \<Rightarrow> message \<times> message list" where
  "message_markAsRead now m ms =
     (if \<not> m_isRead m
      then save_message now (m\<lparr> m_isRead := True, m_readAt := Some now \<rparr>) ms
      else (m, ms))"

definition save_notification :: "notification \<Rightarrow> notification list \<Rightarrow> notification list" where
  "save_notification n ns = map (\<lambda>x. if n_id x = n_id n then n else x) ns"

text \<open>\<open>notificationSchema.methods.markAsRead\<close> (models/Notification.js).\<close>

definition notification_markAsRead ::
  "time \<Rightarrow> notification \<Rightarrow> notification list \<Rightarrow> notification \<times> notification list" where
  "notification_markAsRead now n ns =
     (if \<not> n_isRead n
      then (let n' = n\<lparr> n_isRead := True, n_readAt := Some now \<rparr>
            in (n', save_notification n' ns))
      else (n, ns))"

text \<open>The \<open>message_read\<close> handler of sockets/chat.js; \<open>socket.to(room)\<close> emits to the room.\<close>

definition socket_message_read ::
  "time \<Rightarrow> objectId \<Rightarrow> objectId \<Rightarrow> objectId \<Rightarrow> db \<Rightarrow> emission list \<times> db" where
  "socket_message_read now userId messageId convId d =
     (case find (\<lambda>c. conv_id c = convId) (conversations d) of
        None \<Rightarrow> ([], d)
      | Some conversation \<Rightarrow>
          if userId \<notin> set (conv_participants conversation) then ([], d)
          else
            (case find (\<lambda>m. msg_id m = messageId) (messages d) of
               None \<Rightarrow> ([], d)
             | Some msg \<Rightarrow>
                 if senderId msg \<noteq> userId
                 then (let saved = save_message now
                                     (msg\<lparr> m_isRead := True, m_readAt := Some now \<rparr>)
                                     (messages d)
                       in ([ToRoom (ConversationRoom convId) ''message_read''],
                           d\<lparr> messages := snd saved \<rparr>))
                 else ([], d)))"

text \<open>The \<open>notification_read\<close> handler of sockets/notifications.js.\<close>

definition socket_notification_read ::
  "time \<Rightarrow> objectId \<Rightarrow> objectId \<Rightarrow> db \<Rightarrow> emission list \<times> db" where
  "socket_notification_read now userId notificationId d =
     (case find (\<lambda>n. n_id n = notificationId \<and> n_userId n = userId) (notifications d) of
        None \<Rightarrow> ([ToSocket ''error'' ''Notification not found''], d)
      | Some n \<Rightarrow>
          if n_isRead n then ([ToSocket ''error'' ''Notification is already read''], d)
          else ([ToSocket ''notification_read_confirmed'' [],
                 ToSocket ''unread_count_updated'' []],
                d\<lparr> notifications := save_notification (n\<lparr> n_isRead := True \<rparr>)
                                       (notifications d) \<rparr>))"

text \<open>\<open>PUT /:notificationId/read\<close> of routes/notifications.js.\<close>

definition notification_read_route :: "user \<Rightarrow> objectId \<Rightarrow> db \<Rightarrow> response \<times> db" where
  "notification_read_route reqUser notificationId d =
     (let userId = user_id reqUser in
      case find (\<lambda>n. n_id n = notificationId \<and> n_userId n = userId) (notifications d) of
        None \<Rightarrow> (Json 404 False ''Notification not found'', d)
      | Some n \<Rightarrow>
          if n_isRead n then (Json 400 False ''Notification is already read'', d)
          else (Json 200 True ''Notification marked as read'',
                d\<lparr> notifications := save_notification (n\<lparr> n_isRead := True \<rparr>)
                                       (notifications d) \<rparr>))"

section \<open>Example documents\<close>

definition ex_alice :: user where
  "ex_alice = \<lparr> user_id = 1, name = ''Alice'', subscription_plan = Premium, lastSeen = 0,
                 isOnline = False \<rparr>"

definition ex_bob :: user where
  "ex_bob = \<lparr> user_id = 2, name = ''Bob'', subscription_plan = Free, lastSeen = 0,
               isOnline = False \<rparr>"

definition ex_db :: db where
  "ex_db = \<lparr> users = [ex_alice, ex_bob], matches = [], videoCalls = [], notifications = [],
              conversations = [], messages = [], subscriptions = [] \<rparr>"

definition ex_like :: match where
  "ex_like = \<lparr> match_id = 10, user1Id = 1, user2Id = 2, user1Action = Like,
                user2Action = PendingAction, isMatch = False, matchedAt = None,
                compatibility = 0, createdAt = 1000 \<rparr>"

definition ex_match :: match where
  "ex_match = \<lparr> match_id = 12, user1Id = 1, user2Id = 2, user1Action = Like,
                 user2Action = Like, isMatch = True, matchedAt = Some 500,
                 compatibility = 0, createdAt = 400 \<rparr>"

definition ex_api :: daily_api where
  "ex_api = \<lparr> createRoomResponse = Some (''room-1'', ''https://relacio.daily.co/room-1''),
               deleteRoomOk = True, tokenResponse = Some ''token-1'' \<rparr>"

definition ex_call :: video_call where
  "ex_call = \<lparr> vc_id = 30, callId = GeneratedCallId 900 7, participants = [1, 2],
                initiatorId = 1, status = Pending, startTime = Some 900, endTime = None,
                duration = 0, dailyRoomUrl = Some ''https://relacio.daily.co/room-1'',
                dailyRoomName = Some ''room-1'' \<rparr>"

definition ex_day1 :: js_date where
  "ex_day1 = \<lparr> getFullYear = 2025, getMonth = 0, getDate = 31, msOfDay = 80000000 \<rparr>"

definition ex_day2 :: js_date where
  "ex_day2 = \<lparr> getFullYear = 2025, getMonth = 1, getDate = 1, msOfDay = 1000 \<rparr>"

definition ex_day2_later :: js_date where
  "ex_day2_later = \<lparr> getFullYear = 2025, getMonth = 1, getDate = 1, msOfDay = 5000 \<rparr>"

definition ex_sub :: subscription where
  "ex_sub = \<lparr> sub_userId = 2, sub_plan = Free, sub_features = plan_features Free,
               sub_usage = \<lparr> videoCallsToday = 0, voiceCallsToday = 0, likesToday = 20,
                              superLikesToday = 0, lastResetDate = ex_day1 \<rparr> \<rparr>"

definition ex_io :: io_state where
  "ex_io = \<lparr> sockets = [], joined = [], emitted = [] \<rparr>"

definition ex_conversation :: conversation where
  "ex_conversation = \<lparr> conv_id = 50, conv_participants = [1, 2] \<rparr>"

definition ex_message :: message where
  "ex_message = \<lparr> msg_id = 60, conversationId = 50, senderId = 1, isDisappearing = False,
                   disappearTime = 24, m_isRead = True, m_readAt = Some 700,
                   expiresAt = None \<rparr>"

definition ex_notification :: notification where
  "ex_notification = \<lparr> n_id = 70, n_userId = 2, n_type = ''like'', n_title = ''New Like!'',
                        n_message = ''Alice liked you!'', n_fromUserId = Some 1,
                        n_isRead = True, n_readAt = Some 800 \<rparr>"

definition ex_presence :: "db \<times> io_state" where
  "ex_presence =
     (ex_db\<lparr> users := [ex_alice\<lparr> isOnline := True, lastSeen := 10 \<rparr>,
                         ex_bob\<lparr> isOnline := True, lastSeen := 20 \<rparr>] \<rparr>,
      \<lparr> sockets = [(3, 2), (4, 2), (5, 1)],
        joined = [(3, UserRoom 2), (4, UserRoom 2), (5, UserRoom 1)],
        emitted = [Broadcast ''user_online'' 2, Broadcast ''user_online'' 1,
                   Broadcast ''user_online'' 2] \<rparr>)"

definition ex_pass :: match where
  "ex_pass = \<lparr> match_id = 11, user1Id = 2, user2Id = 1, user1Action = Like,
                user2Action = Pass, isMatch = False, matchedAt = None,
                compatibility = 0, createdAt = 1500 \<rparr>"

section \<open>Match derivation and swipes\<close>

text \<open>
  C6 (as amended). After any successful save of a Match, the two action slots are as
  written, \<open>isMatch\<close> is true exactly when both slots are \<open>like\<close>, and \<open>matchedAt\<close> is
  the time of the save when the record becomes a match without a stored \<open>matchedAt\<close>,
  the stored value when it already has one, and cleared when the record is not a match.
  A \<open>super_like\<close> in either slot never yields a match.
\<close>

theorem match_save_derivation:
  assumes "save_match now m ms = Inr (m', ms') \<or> save_new_match now m ms = Inr (m', ms')"
  shows "user1Action m' = user1Action m \<and> user2Action m' = user2Action m
     \<and> isMatch m' = (user1Action m = Like \<and> user2Action m = Like)
     \<and> matchedAt m' =
         (if user1Action m = Like \<and> user2Action m = Like
          then (case matchedAt m of None \<Rightarrow> Some now | Some t \<Rightarrow> Some t)
          else None)"
  using assms
  by (auto simp: save_match_def save_new_match_def match_pre_save_def match_check_def
           split: if_splits sum.splits)

theorem match_save_derivation_witness:
  "save_match 9 \<lparr> match_id = 1, user1Id = 1, user2Id = 2, user1Action = Like,
        user2Action = Like, isMatch = False, matchedAt = None, compatibility = 40,
        createdAt = 5 \<rparr> []
     = Inr (\<lparr> match_id = 1, user1Id = 1, user2Id = 2, user1Action = Like,
        user2Action = Like, isMatch = True, matchedAt = Some 9, compatibility = 40,
        createdAt = 5 \<rparr>, [])
   \<and> isMatch \<lparr> match_id = 1, user1Id = 1, user2Id = 2, user1Action = Like,
        user2Action = Like, isMatch = True, matchedAt = Some 9, compatibility = 40,
        createdAt = 5 \<rparr>"
proof -
  have h: "save_match 9 \<lparr> match_id = 1, user1Id = 1, user2Id = 2, user1Action = Like,
        user2Action = Like, isMatch = False, matchedAt = None, compatibility = 40,
        createdAt = 5 \<rparr> []
     = Inr (\<lparr> match_id = 1, user1Id = 1, user2Id = 2, user1Action = Like,
        user2Action = Like, isMatch = True, matchedAt = Some 9, compatibility = 40,
        createdAt = 5 \<rparr>, [])"
    by (simp add: save_match_def match_pre_save_def match_check_def replace_match_def)
  from match_save_derivation [OF disjI1, OF h] h show ?thesis by simp
qed

text \<open>
  C6 as stated fails: a record saved with one slot \<open>like\<close> and the other \<open>super_like\<close>
  is stored with \<open>isMatch\<close> false.
\<close>

theorem match_like_super_like_counterexample:
  "save_new_match 9 \<lparr> match_id = 1, user1Id = 1, user2Id = 2, user1Action = Like,
        user2Action = Super_like, isMatch = False, matchedAt = None, compatibility = 40,
        createdAt = 9 \<rparr> []
   = Inr (\<lparr> match_id = 1, user1Id = 1, user2Id = 2, user1Action = Like,
        user2Action = Super_like, isMatch = False, matchedAt = None, compatibility = 40,
        createdAt = 9 \<rparr>,
      [\<lparr> match_id = 1, user1Id = 1, user2Id = 2, user1Action = Like,
        user2Action = Super_like, isMatch = False, matchedAt = None, compatibility = 40,
        createdAt = 9 \<rparr>])"
  by (simp add: save_new_match_def match_pre_save_def match_check_def)

text \<open>
  C7. Alice likes Bob through \<open>POST /swipe\<close> on a store without a record for the pair:
  the store then holds one Match with her slot \<open>like\<close>, his slot \<open>pending\<close> and
  \<open>isMatch\<close> false. Bob's like on Alice through the same route is answered with 409 and
  the store is unchanged, although \<open>processSwipe\<close>, called on the same store, would have
  updated that record to a match with \<open>matchedAt\<close> set.
\<close>

theorem swipe_route_reciprocal_like_rejected:
  "snd (swipe_route 1000 10 20 21 None ex_alice 2 Like ex_db) = ex_db\<lparr> matches := [ex_like] \<rparr>
   \<and> swipe_route 2000 11 22 23 None ex_bob 1 Like (ex_db\<lparr> matches := [ex_like] \<rparr>)
       = (Json 409 False ''You have already swiped on this user'', ex_db\<lparr> matches := [ex_like] \<rparr>)
   \<and> processSwipe 2000 11 None 2 1 Like [ex_like]
       = Inr (ex_like\<lparr> user2Action := Like, isMatch := True, matchedAt := Some 2000 \<rparr>,
              [ex_like\<lparr> user2Action := Like, isMatch := True, matchedAt := Some 2000 \<rparr>])"
  by (simp add: swipe_route_def processSwipe_def findExistingMatch_def save_new_match_def
        save_match_def match_pre_save_def match_check_def replace_match_def create_in_db_def
        createNotification_def required_string_def ex_alice_def ex_bob_def ex_db_def ex_like_def)

section \<open>Undoing a swipe\<close>

lemma latest_match_mem_aux:
  "fold (\<lambda>x best. if createdAt best < createdAt x then x else best) xs m \<in> insert m (set xs)"
proof (induction xs arbitrary: m)
  case Nil
  show ?case by simp
next
  case (Cons a xs)
  have "fold (\<lambda>x best. if createdAt best < createdAt x then x else best) xs
          (if createdAt m < createdAt a then a else m)
        \<in> insert (if createdAt m < createdAt a then a else m) (set xs)"
    by (rule Cons.IH)
  then show ?case by (auto split: if_splits)
qed

lemma latest_match_mem: "latest_match xs = Some m \<Longrightarrow> m \<in> set xs"
  using latest_match_mem_aux by (cases xs) (auto simp: latest_match_def)

lemma find_id_distinct:
  "distinct (map match_id ms) \<Longrightarrow> m \<in> set ms
     \<Longrightarrow> find (\<lambda>x. match_id x = match_id m) ms = Some m"
  by (induction ms) (auto simp: image_iff)

lemma delete_match_by_id_distinct:
  "distinct (map match_id ms) \<Longrightarrow> m \<in> set ms
     \<Longrightarrow> delete_match_by_id (match_id m) ms = remove1 m ms"
  by (simp add: delete_match_by_id_def find_id_distinct)

text \<open>
  C10. On a store whose Match documents have distinct \<open>_id\<close>s, \<open>POST /undo\<close> leaves the
  notifications as they are and removes at most one Match; a removed Match has the caller
  as \<open>user1Id\<close>, was created no more than 5 minutes before the request, and the caller's
  plan is not \<open>free\<close>; every Match whose \<open>user1Id\<close> is another user is still stored.
\<close>

theorem undo_route_restriction:
  assumes "distinct (map match_id (matches d))"
  shows "notifications (snd (undo_route now reqUser d)) = notifications d
     \<and> length (matches d) \<le> Suc (length (matches (snd (undo_route now reqUser d))))
     \<and> (matches (snd (undo_route now reqUser d)) = matches d
        \<or> (\<exists>m \<in> set (matches d). user1Id m = user_id reqUser \<and> now - 300000 \<le> createdAt m
              \<and> subscription_plan reqUser \<noteq> Free
              \<and> matches (snd (undo_route now reqUser d)) = remove1 m (matches d)))
     \<and> (\<forall>m \<in> set (matches d). user1Id m \<noteq> user_id reqUser
           \<longrightarrow> m \<in> set (matches (snd (undo_route now reqUser d))))"
proof (cases "subscription_plan reqUser = Free")
  case True
  then show ?thesis by (simp add: undo_route_def)
next
  case notfree: False
  let ?cands = "filter (\<lambda>m. user1Id m = user_id reqUser \<and> now - 5 * 60 * 1000 \<le> createdAt m)
                  (matches d)"
  show ?thesis
  proof (cases "latest_match ?cands")
    case None
    then show ?thesis using notfree by (simp add: undo_route_def)
  next
    case (Some lastMatch)
    then have mem: "lastMatch \<in> set ?cands" by (rule latest_match_mem)
    then have in_ms: "lastMatch \<in> set (matches d)"
      and own: "user1Id lastMatch = user_id reqUser"
      and recent: "now - 300000 \<le> createdAt lastMatch" by auto
    have res: "matches (snd (undo_route now reqUser d)) = remove1 lastMatch (matches d)"
      and nres: "notifications (snd (undo_route now reqUser d)) = notifications d"
      using Some notfree delete_match_by_id_distinct [OF assms in_ms]
      by (simp_all add: undo_route_def)
    have len: "length (matches d) \<le> Suc (length (remove1 lastMatch (matches d)))"
      using in_ms by (simp add: length_remove1)
    have keep: "\<forall>m \<in> set (matches d). user1Id m \<noteq> user_id reqUser
                  \<longrightarrow> m \<in> set (remove1 lastMatch (matches d))"
      using own by (metis in_set_remove1)
    from res nres len keep in_ms own recent notfree show ?thesis by auto
  qed
qed

theorem undo_route_restriction_witness:
  "distinct (map match_id [ex_like, ex_pass])
   \<and> undo_route 2000 ex_alice (ex_db\<lparr> matches := [ex_like, ex_pass] \<rparr>)
       = (Json 200 True ''Last swipe undone successfully'', ex_db\<lparr> matches := [ex_pass] \<rparr>)
   \<and> notifications (snd (undo_route 2000 ex_alice (ex_db\<lparr> matches := [ex_like, ex_pass] \<rparr>))) = []
   \<and> ex_pass \<in> set (matches (snd (undo_route 2000 ex_alice
                                      (ex_db\<lparr> matches := [ex_like, ex_pass] \<rparr>))))"
proof -
  have h: "distinct (map match_id (matches (ex_db\<lparr> matches := [ex_like, ex_pass] \<rparr>)))"
    by (simp add: ex_like_def ex_pass_def)
  have e: "undo_route 2000 ex_alice (ex_db\<lparr> matches := [ex_like, ex_pass] \<rparr>)
       = (Json 200 True ''Last swipe undone successfully'', ex_db\<lparr> matches := [ex_pass] \<rparr>)"
    by (simp add: undo_route_def latest_match_def delete_match_by_id_def ex_alice_def
          ex_db_def ex_like_def ex_pass_def)
  from undo_route_restriction [OF h, of 2000 ex_alice] h e show ?thesis
    by (simp add: ex_db_def ex_like_def ex_pass_def ex_alice_def)
qed

section \<open>Video calls\<close>

lemma create_in_db_string_fails:
  "create_in_db nId uid (JString s) d
     = Inl ''Failed to create notification: Notification validation failed''"
  by (simp add: create_in_db_def createNotification_def required_string_def split: option.splits)

lemma new_video_call_without_room_name:
  "dailyRoomName c = None \<Longrightarrow> save_new_video_call c cs = Inl ''VideoCall validation failed''"
  by (simp add: save_new_video_call_def video_call_pre_save_def required_field_def)

text \<open>
  On a store whose calls have distinct \<open>_id\<close>s, the three REST routes and the socket
  handlers \<open>call_accept\<close> and \<open>call_decline\<close> keep to the state machine.
\<close>

lemma calls_step_ok_refl: "calls_step_ok cs cs"
  by (simp add: calls_step_ok_def list_all2_same)

lemma video_call_pre_save_keeps:
  "video_call_pre_save c = Inr c' \<Longrightarrow> status c' = status c \<and> vc_id c' = vc_id c"
  by (auto simp: video_call_pre_save_def split: if_splits call_status.splits option.splits)

lemma find_vc_id:
  "find (\<lambda>c. vc_id c = cid) cs = Some c0 \<Longrightarrow> c0 \<in> set cs \<and> vc_id c0 = cid"
  by (induction cs) (auto split: if_splits)

lemma calls_step_ok_replace:
  assumes "distinct (map vc_id cs)" and "c0 \<in> set cs" and "vc_id c1 = vc_id c0"
    and "allowed_transition (status c0) (status c1)"
  shows "calls_step_ok cs (map (\<lambda>x. if vc_id x = vc_id c1 then c1 else x) cs)"
proof -
  have "\<And>x. x \<in> set cs \<Longrightarrow> vc_id x = vc_id c0 \<Longrightarrow> x = c0"
    using assms(1,2) by (metis distinct_map inj_on_def)
  then show ?thesis
    using assms(3,4) by (auto simp: calls_step_ok_def list_all2_map2 list_all2_same)
qed

lemma save_video_call_step:
  assumes "distinct (map vc_id cs)" and "find (\<lambda>c. vc_id c = cid) cs = Some c0"
    and "save_video_call c1 cs = Inr (saved, cs')"
    and "vc_id c1 = vc_id c0" and "allowed_transition (status c0) (status c1)"
  shows "calls_step_ok cs cs'"
proof -
  from assms(3) obtain c2 where p: "video_call_pre_save c1 = Inr c2"
    and cs': "cs' = map (\<lambda>x. if vc_id x = vc_id c2 then c2 else x) cs"
    by (auto simp: save_video_call_def split: sum.splits)
  from p have k: "status c2 = status c1" "vc_id c2 = vc_id c1"
    using video_call_pre_save_keeps by blast+
  from assms(2) have m: "c0 \<in> set cs" using find_vc_id by blast
  show ?thesis unfolding cs'
    by (rule calls_step_ok_replace [OF assms(1) m]) (simp_all add: k assms(4,5))
qed

lemma guarded_handlers_respect_state_machine:
  assumes d: "distinct (map vc_id (videoCalls d))"
  shows "calls_step_ok (videoCalls d) (videoCalls (snd (accept_route now nId api reqUser cid d)))"
    and "calls_step_ok (videoCalls d) (videoCalls (snd (decline_route now nId api reqUser cid d)))"
    and "calls_step_ok (videoCalls d) (videoCalls (snd (end_route now nId api reqUser cid d)))"
    and "calls_step_ok (videoCalls d) (videoCalls (snd (socket_call_accept now nId api uid cid d)))"
    and "calls_step_ok (videoCalls d) (videoCalls (snd (socket_call_decline now nId api uid cid d)))"
proof -
  have step: "calls_step_ok (videoCalls d) cs'"
    if "find (\<lambda>c. vc_id c = cid) (videoCalls d) = Some c0"
      and "save_video_call c1 (videoCalls d) = Inr (saved, cs')"
      and "vc_id c1 = vc_id c0" and "allowed_transition (status c0) (status c1)"
    for c0 c1 saved cs'
    using save_video_call_step [OF d that] .
  show "calls_step_ok (videoCalls d) (videoCalls (snd (accept_route now nId api reqUser cid d)))"
    by (auto simp: accept_route_def Let_def calls_step_ok_refl create_in_db_string_fails
          allowed_transition_def split: option.splits sum.splits intro!: step)
  show "calls_step_ok (videoCalls d) (videoCalls (snd (decline_route now nId api reqUser cid d)))"
    by (auto simp: decline_route_def Let_def calls_step_ok_refl create_in_db_string_fails
          allowed_transition_def split: option.splits sum.splits intro!: step)
  show "calls_step_ok (videoCalls d) (videoCalls (snd (end_route now nId api reqUser cid d)))"
    by (auto simp: end_route_def Let_def calls_step_ok_refl create_in_db_string_fails
          allowed_transition_def split: option.splits sum.splits intro!: step)
  show "calls_step_ok (videoCalls d) (videoCalls (snd (socket_call_accept now nId api uid cid d)))"
    by (auto simp: socket_call_accept_def Let_def calls_step_ok_refl create_in_db_string_fails
          allowed_transition_def split: option.splits sum.splits intro!: step)
  show "calls_step_ok (videoCalls d) (videoCalls (snd (socket_call_decline now nId api uid cid d)))"
    by (auto simp: socket_call_decline_def Let_def calls_step_ok_refl create_in_db_string_fails
          allowed_transition_def split: option.splits sum.splits intro!: step)
qed

text \<open>
  C1. The socket \<open>call_end\<close> handler moves a \<open>declined\<close> call and a \<open>pending\<close> call to
  \<open>ended\<close>: it has no check of the current status, and the run on the declined call is
  not in order for the state machine. The REST route refuses the same request on the
  declined call with 400.
\<close>

theorem socket_call_end_from_any_status:
  "videoCalls (snd (socket_call_end 1000 40 ex_api 1 30
      (ex_db\<lparr> videoCalls := [ex_call\<lparr> status := Declined, endTime := Some 950 \<rparr>] \<rparr>)))
     = [ex_call\<lparr> status := Ended, endTime := Some 950 \<rparr>]
   \<and> videoCalls (snd (socket_call_end 1000 40 ex_api 1 30 (ex_db\<lparr> videoCalls := [ex_call] \<rparr>)))
     = [ex_call\<lparr> status := Ended \<rparr>]
   \<and> \<not> calls_step_ok [ex_call\<lparr> status := Declined, endTime := Some 950 \<rparr>]
          (videoCalls (snd (socket_call_end 1000 40 ex_api 1 30
             (ex_db\<lparr> videoCalls := [ex_call\<lparr> status := Declined, endTime := Some 950 \<rparr>] \<rparr>))))
   \<and> end_route 1000 40 ex_api ex_alice 30
        (ex_db\<lparr> videoCalls := [ex_call\<lparr> status := Declined, endTime := Some 950 \<rparr>] \<rparr>)
     = (Json 400 False ''Call is not active'',
        ex_db\<lparr> videoCalls := [ex_call\<lparr> status := Declined, endTime := Some 950 \<rparr>] \<rparr>)"
  by (simp add: socket_call_end_def end_route_def create_in_db_string_fails save_video_call_def
        video_call_pre_save_def required_field_def deleteRoom_def calls_step_ok_def
        allowed_transition_def ex_api_def ex_alice_def ex_db_def ex_call_def)

text \<open>
  C4. Neither the REST route nor the socket handler ever stores a VideoCall: the document
  they build has no \<open>dailyRoomName\<close>, which the schema requires (the REST route also
  reads \<open>roomData.url\<close>, a property \<open>createRoom\<close> does not return). For matched users
  without a call and a provider that creates the room, the route answers with the
  validation error and the store is as before.
\<close>

theorem initiate_route_creates_no_call:
  "videoCalls (snd (initiate_route now newId nId api reqUser recipientUserId d)) = videoCalls d
   \<and> videoCalls (snd (socket_call_initiate now rnd newId nId api n userId recipientUserId d))
       = videoCalls d
   \<and> initiate_route 1000 31 40 ex_api ex_alice 2 (ex_db\<lparr> matches := [ex_match] \<rparr>)
       = (NextError ''VideoCall validation failed'', ex_db\<lparr> matches := [ex_match] \<rparr>)"
proof -
  have a: "videoCalls (snd (initiate_route now newId nId api reqUser recipientUserId d))
             = videoCalls d"
    by (simp add: initiate_route_def new_video_call_without_room_name Let_def
          split: option.splits sum.splits)
  have b: "videoCalls (snd (socket_call_initiate now rnd newId nId api n userId recipientUserId d))
             = videoCalls d"
    by (simp add: socket_call_initiate_def new_video_call_without_room_name Let_def
          split: option.splits sum.splits)
  have c: "initiate_route 1000 31 40 ex_api ex_alice 2 (ex_db\<lparr> matches := [ex_match] \<rparr>)
       = (NextError ''VideoCall validation failed'', ex_db\<lparr> matches := [ex_match] \<rparr>)"
    by (simp add: initiate_route_def new_video_call_without_room_name createRoom_def
          ex_api_def ex_alice_def ex_bob_def ex_db_def ex_match_def)
  from a b c show ?thesis by simp
qed

text \<open>
  C5. No run of the accept, decline or end route adds a Notification. When Bob accepts
  the pending call, the call is stored as \<open>active\<close> and the request then fails with the
  validation error of the notification.
\<close>

theorem call_transition_notification_fails:
  "notifications (snd (accept_route now nId api reqUser cid d)) = notifications d
   \<and> notifications (snd (decline_route now nId api reqUser cid d)) = notifications d
   \<and> notifications (snd (end_route now nId api reqUser cid d)) = notifications d
   \<and> accept_route 1000 40 ex_api ex_bob 30 (ex_db\<lparr> videoCalls := [ex_call] \<rparr>)
       = (NextError ''Failed to create notification: Notification validation failed'',
          ex_db\<lparr> videoCalls := [ex_call\<lparr> status := Active, startTime := Some 1000 \<rparr>] \<rparr>)"
proof -
  have a: "notifications (snd (accept_route now nId api reqUser cid d)) = notifications d"
    by (simp add: accept_route_def create_in_db_string_fails Let_def
          split: option.splits sum.splits prod.splits)
  have b: "notifications (snd (decline_route now nId api reqUser cid d)) = notifications d"
    by (simp add: decline_route_def create_in_db_string_fails Let_def
          split: option.splits sum.splits prod.splits)
  have c: "notifications (snd (end_route now nId api reqUser cid d)) = notifications d"
    by (simp add: end_route_def create_in_db_string_fails Let_def
          split: option.splits sum.splits prod.splits)
  have e: "accept_route 1000 40 ex_api ex_bob 30 (ex_db\<lparr> videoCalls := [ex_call] \<rparr>)
       = (NextError ''Failed to create notification: Notification validation failed'',
          ex_db\<lparr> videoCalls := [ex_call\<lparr> status := Active, startTime := Some 1000 \<rparr>] \<rparr>)"
    by (simp add: accept_route_def create_in_db_string_fails save_video_call_def
          video_call_pre_save_def required_field_def generateRoomToken_def
          ex_api_def ex_bob_def ex_db_def ex_call_def)
  from a b c e show ?thesis by simp
qed

section \<open>Quota ledger\<close>

lemma js_less_undefined: "js_less None b = False" "js_less a None = False"
  by (simp_all add: js_less_def split: option.splits)

lemma messages_keys:
  "features_get f ''messagesPerDay'' = None"
  "usage_get u ''messagesToday'' = None"
  by (simp_all add: features_get_def usage_get_def)

text \<open>
  For a feature of the schema and a user with a subscription, the verdict is: the limit is
  the sentinel \<open>-1\<close>, or the counter (after the reset, when one is due) is below the
  limit.
\<close>

lemma checkLimit_schema_features:
  assumes "f \<in> set schema_features"
    and "find (\<lambda>x. sub_userId x = uid) (subscriptions d) = Some s"
  shows "\<exists>limit used.
           features_get (sub_features s) (f @ ''PerDay'') = Some limit
         \<and> usage_get (sub_usage (resetDailyUsageIfNeeded now s)) (f @ ''Today'') = Some used
         \<and> checkFeatureLimit now uid f d = (limit = - 1 \<or> used < limit)"
  using assms
  by (auto simp: schema_features_def checkFeatureLimit_def canPerformAction_def Let_def
        features_get_def usage_get_def js_less_def resetDailyUsageIfNeeded_def)

text \<open>
  C2. For \<open>messages\<close> the verdict is false for every user, every store and every clock
  value: the schema has neither \<open>messagesPerDay\<close> nor \<open>messagesToday\<close>, so both operands
  of the comparison are \<open>undefined\<close>. On the same store a like is allowed.
\<close>

theorem checkLimit_messages_always_denied:
  "checkFeatureLimit now userId ''messages'' d = False
   \<and> checkMessageLimit now userId d = False
   \<and> checkFeatureLimit ex_day2 2 ''messages'' (ex_db\<lparr> subscriptions := [ex_sub] \<rparr>) = False
   \<and> checkFeatureLimit ex_day2 2 ''likes'' (ex_db\<lparr> subscriptions := [ex_sub] \<rparr>) = True"
proof -
  have a: "checkFeatureLimit n u ''messages'' x = False" for n u x
    by (simp add: checkFeatureLimit_def canPerformAction_def Let_def messages_keys
          js_less_undefined split: option.splits)
  have b: "checkFeatureLimit ex_day2 2 ''likes'' (ex_db\<lparr> subscriptions := [ex_sub] \<rparr>) = True"
    by (simp add: checkFeatureLimit_def canPerformAction_def resetDailyUsageIfNeeded_def
          features_get_def usage_get_def js_less_def plan_features_def
          ex_db_def ex_sub_def ex_day1_def ex_day2_def)
  from a b show ?thesis by (simp add: checkMessageLimit_def)
qed

lemma reset_on_later_day:
  "later_day now (lastResetDate (sub_usage s))
     \<Longrightarrow> resetDailyUsageIfNeeded now s = s\<lparr> sub_usage := fresh_usage now \<rparr>"
  by (auto simp: resetDailyUsageIfNeeded_def later_day_def fresh_usage_def Let_def)

lemma reset_on_same_day:
  "same_day now (lastResetDate (sub_usage s)) \<Longrightarrow> resetDailyUsageIfNeeded now s = s"
  by (simp add: resetDailyUsageIfNeeded_def same_day_def Let_def)

lemma lastResetDate_usage_incr: "lastResetDate (usage_incr u k) = lastResetDate u"
  by (simp add: usage_incr_def)

lemma find_save_subscription:
  "find (\<lambda>x. sub_userId x = uid) ss = Some s \<Longrightarrow> sub_userId s' = uid
     \<Longrightarrow> find (\<lambda>x. sub_userId x = uid) (save_subscription s' ss) = Some s'"
  by (induction ss) (auto simp: save_subscription_def split: if_splits)

lemma find_sub_userId:
  "find (\<lambda>x. sub_userId x = uid) ss = Some s \<Longrightarrow> sub_userId s = uid"
  by (induction ss) (auto split: if_splits)

lemma schema_counter_after_first_action:
  "f \<in> set schema_features
     \<Longrightarrow> usage_get (usage_incr (fresh_usage now) (f @ ''Today'')) (f @ ''Today'') = Some 1"
  by (auto simp: schema_features_def usage_get_def usage_incr_def fresh_usage_def)

lemma checkFeatureLimit_run_verdict:
  "fst (checkFeatureLimit_run now uid f d) = checkFeatureLimit now uid f d"
  by (simp add: checkFeatureLimit_run_def checkFeatureLimit_def Let_def split: option.splits)

lemma checkFeatureLimit_run_store:
  "snd (snd (checkFeatureLimit_run now uid f d)) = d"
  by (simp add: checkFeatureLimit_run_def Let_def split: option.splits)

text \<open>
  C3 (as amended). Let the user hold the subscription \<open>s\<close>, let \<open>now\<close> fall on a later
  calendar day than the stored \<open>lastResetDate\<close>, and let \<open>f\<close> be one of \<open>videoCalls\<close>,
  \<open>voiceCalls\<close>, \<open>likes\<close>, \<open>superLikes\<close> with limit \<open>limit\<close>. A read at \<open>now\<close> resets the
  loaded document (all four counters zero, \<open>lastResetDate\<close> \<open>now\<close>) before it judges, so
  its verdict is that of a counter at zero whatever the stored counters were; the store
  itself is left as it was. The increment at \<open>now\<close> succeeds and stores the reset document
  with the counter of \<open>f\<close> at 1, the other counters at zero and \<open>lastResetDate\<close> \<open>now\<close>. A
  read later on the same day judges against that counter of 1.
\<close>

theorem daily_reset_schema_features:
  assumes later: "later_day now (lastResetDate (sub_usage s))"
    and found: "find (\<lambda>x. sub_userId x = uid) (subscriptions d) = Some s"
    and same: "same_day now' now"
    and feat: "f \<in> set schema_features"
    and lim: "features_get (sub_features s) (f @ ''PerDay'') = Some limit"
  shows "resetDailyUsageIfNeeded now s = s\<lparr> sub_usage := fresh_usage now \<rparr>
     \<and> checkFeatureLimit_run now uid f d
         = (limit = - 1 \<or> 0 < limit, Some (s\<lparr> sub_usage := fresh_usage now \<rparr>), d)
     \<and> checkFeatureLimit now uid f d = (limit = - 1 \<or> 0 < limit)
     \<and> fst (incrementUsage now uid f d) = True
     \<and> find (\<lambda>x. sub_userId x = uid) (subscriptions (snd (incrementUsage now uid f d)))
         = Some (s\<lparr> sub_usage :=
                       (if f = ''videoCalls'' then (fresh_usage now)\<lparr> videoCallsToday := 1 \<rparr>
                        else if f = ''voiceCalls'' then (fresh_usage now)\<lparr> voiceCallsToday := 1 \<rparr>
                        else if f = ''likes'' then (fresh_usage now)\<lparr> likesToday := 1 \<rparr>
                        else (fresh_usage now)\<lparr> superLikesToday := 1 \<rparr>) \<rparr>)
     \<and> checkFeatureLimit now' uid f (snd (incrementUsage now uid f d))
         = (limit = - 1 \<or> 1 < limit)"
proof -
  let ?u1 = "if f = ''videoCalls'' then (fresh_usage now)\<lparr> videoCallsToday := 1 \<rparr>
             else if f = ''voiceCalls'' then (fresh_usage now)\<lparr> voiceCallsToday := 1 \<rparr>
             else if f = ''likes'' then (fresh_usage now)\<lparr> likesToday := 1 \<rparr>
             else (fresh_usage now)\<lparr> superLikesToday := 1 \<rparr>"
  let ?s1 = "s\<lparr> sub_usage := ?u1 \<rparr>"
  have r: "resetDailyUsageIfNeeded now s = s\<lparr> sub_usage := fresh_usage now \<rparr>"
    using later by (rule reset_on_later_day)
  have u0: "usage_get (fresh_usage now) (f @ ''Today'') = Some 0"
    using feat by (auto simp: schema_features_def usage_get_def fresh_usage_def)
  have c: "canPerformAction now f s
             = (limit = - 1 \<or> 0 < limit, s\<lparr> sub_usage := fresh_usage now \<rparr>)"
    by (simp add: canPerformAction_def r Let_def lim u0 js_less_def)
  have run: "checkFeatureLimit_run now uid f d
         = (limit = - 1 \<or> 0 < limit, Some (s\<lparr> sub_usage := fresh_usage now \<rparr>), d)"
    by (simp add: checkFeatureLimit_run_def found c)
  have chk: "checkFeatureLimit now uid f d = (limit = - 1 \<or> 0 < limit)"
    by (simp add: checkFeatureLimit_def found c)
  have inc: "usage_incr (fresh_usage now) (f @ ''Today'') = ?u1"
    using feat by (auto simp: schema_features_def usage_incr_def fresh_usage_def)
  have i: "subscription_incrementUsage now f s = ?s1"
    by (simp add: subscription_incrementUsage_def r Let_def inc)
  have uid: "sub_userId s = uid" using found by (rule find_sub_userId)
  have ok: "fst (incrementUsage now uid f d) = True"
    by (simp add: incrementUsage_def found)
  have stored: "find (\<lambda>x. sub_userId x = uid) (subscriptions (snd (incrementUsage now uid f d)))
         = Some ?s1"
    using found uid by (simp add: incrementUsage_def i find_save_subscription)
  have "same_day now' (lastResetDate (sub_usage ?s1))"
    using same by (simp add: fresh_usage_def)
  then have r1: "resetDailyUsageIfNeeded now' ?s1 = ?s1" by (rule reset_on_same_day)
  have u1: "usage_get ?u1 (f @ ''Today'') = Some 1"
    using feat by (auto simp: schema_features_def usage_get_def fresh_usage_def)
  have lim1: "features_get (sub_features ?s1) (f @ ''PerDay'') = Some limit"
    using lim by simp
  have c1: "fst (canPerformAction now' f ?s1) = (limit = - 1 \<or> 1 < limit)"
    unfolding canPerformAction_def r1 Let_def lim1 by (simp add: u1 js_less_def)
  have after: "checkFeatureLimit now' uid f (snd (incrementUsage now uid f d))
         = (limit = - 1 \<or> 1 < limit)"
    unfolding checkFeatureLimit_def stored using c1 by simp
  from r run chk ok stored after show ?thesis by simp
qed

theorem daily_reset_schema_features_witness:
  "later_day ex_day2 (lastResetDate (sub_usage ex_sub))
   \<and> same_day ex_day2_later ex_day2
   \<and> ''likes'' \<in> set schema_features
   \<and> likesToday (sub_usage ex_sub) = 20
   \<and> features_get (sub_features ex_sub) (''likes'' @ ''PerDay'') = Some 20
   \<and> checkFeatureLimit ex_day1 2 ''likes'' (ex_db\<lparr> subscriptions := [ex_sub] \<rparr>) = False
   \<and> checkFeatureLimit_run ex_day2 2 ''likes'' (ex_db\<lparr> subscriptions := [ex_sub] \<rparr>)
       = (True, Some (ex_sub\<lparr> sub_usage := fresh_usage ex_day2 \<rparr>),
          ex_db\<lparr> subscriptions := [ex_sub] \<rparr>)
   \<and> find (\<lambda>x. sub_userId x = 2)
        (subscriptions (snd (incrementUsage ex_day2 2 ''likes'' (ex_db\<lparr> subscriptions := [ex_sub] \<rparr>))))
       = Some (ex_sub\<lparr> sub_usage := (fresh_usage ex_day2)\<lparr> likesToday := 1 \<rparr> \<rparr>)
   \<and> checkFeatureLimit ex_day2_later 2 ''likes''
        (snd (incrementUsage ex_day2 2 ''likes'' (ex_db\<lparr> subscriptions := [ex_sub] \<rparr>))) = True"
proof -
  have l: "later_day ex_day2 (lastResetDate (sub_usage ex_sub))"
    by (simp add: later_day_def ex_day2_def ex_day1_def ex_sub_def)
  have f: "find (\<lambda>x. sub_userId x = 2) (subscriptions (ex_db\<lparr> subscriptions := [ex_sub] \<rparr>))
             = Some ex_sub"
    by (simp add: ex_sub_def)
  have sd: "same_day ex_day2_later ex_day2"
    by (simp add: same_day_def ex_day2_def ex_day2_later_def)
  have ft: "''likes'' \<in> set schema_features" by (simp add: schema_features_def)
  have lim: "features_get (sub_features ex_sub) (''likes'' @ ''PerDay'') = Some 20"
    by (simp add: features_get_def ex_sub_def plan_features_def)
  have used: "likesToday (sub_usage ex_sub) = 20" by (simp add: ex_sub_def)
  have old: "checkFeatureLimit ex_day1 2 ''likes'' (ex_db\<lparr> subscriptions := [ex_sub] \<rparr>) = False"
    by (simp add: checkFeatureLimit_def canPerformAction_def resetDailyUsageIfNeeded_def
          features_get_def usage_get_def js_less_def plan_features_def ex_sub_def)
  from daily_reset_schema_features [OF l f sd ft lim] l sd ft lim used old
  show ?thesis by simp
qed

text \<open>
  C3 as stated fails. On the day after the stored \<open>lastResetDate\<close> a read for \<open>likes\<close>
  resets the loaded document only: the store still holds the subscription with the old
  \<open>lastResetDate\<close>. And for the feature \<open>messages\<close> the verdict after the first action of
  the new day is a denial, not that of a clean slate.
\<close>

theorem daily_reset_read_counterexample:
  "checkFeatureLimit_run ex_day2 2 ''likes'' (ex_db\<lparr> subscriptions := [ex_sub] \<rparr>)
     = (True, Some (ex_sub\<lparr> sub_usage := fresh_usage ex_day2 \<rparr>),
        ex_db\<lparr> subscriptions := [ex_sub] \<rparr>)
   \<and> lastResetDate (sub_usage ex_sub) = ex_day1
   \<and> ex_day1 \<noteq> ex_day2
   \<and> checkFeatureLimit ex_day2_later 2 ''messages''
        (snd (incrementUsage ex_day2 2 ''messages'' (ex_db\<lparr> subscriptions := [ex_sub] \<rparr>)))
       = False"
proof -
  have a: "checkFeatureLimit_run ex_day2 2 ''likes'' (ex_db\<lparr> subscriptions := [ex_sub] \<rparr>)
     = (True, Some (ex_sub\<lparr> sub_usage := fresh_usage ex_day2 \<rparr>),
        ex_db\<lparr> subscriptions := [ex_sub] \<rparr>)"
    by (simp add: checkFeatureLimit_run_def canPerformAction_def resetDailyUsageIfNeeded_def
          features_get_def usage_get_def js_less_def plan_features_def fresh_usage_def
          ex_sub_def ex_day1_def ex_day2_def)
  have b: "lastResetDate (sub_usage ex_sub) = ex_day1" by (simp add: ex_sub_def)
  have c: "ex_day1 \<noteq> ex_day2" by (simp add: ex_day1_def ex_day2_def)
  have e: "checkFeatureLimit ex_day2_later 2 ''messages''
        (snd (incrementUsage ex_day2 2 ''messages'' (ex_db\<lparr> subscriptions := [ex_sub] \<rparr>)))
       = False"
    by (simp add: checkFeatureLimit_def canPerformAction_def Let_def messages_keys
          js_less_undefined split: option.splits)
  from a b c e show ?thesis by simp
qed

section \<open>Presence\<close>

lemma find_set_presence:
  "find (\<lambda>u. user_id u = uid) (set_presence uid b now us)
     = map_option (\<lambda>u. u\<lparr> isOnline := b, lastSeen := now \<rparr>) (find (\<lambda>u. user_id u = uid) us)"
  by (induction us) (simp_all add: set_presence_def)

lemma user_online_set_presence:
  "user_online uid (d\<lparr> users := set_presence uid b now (users d) \<rparr>)
     = map_option (\<lambda>u. b) (user_online uid d)"
  by (simp add: user_online_def find_set_presence option.map_comp comp_def)

lemma user_online_setOnlineStatus:
  "user_online uid (d\<lparr> users := setOnlineStatus uid v now (users d) \<rparr>)
     = map_option (\<lambda>u. v) (user_online uid d)"
proof -
  have "map_option isOnline (find (\<lambda>u. user_id u = uid) (setOnlineStatus uid v now us))
          = map_option (\<lambda>u. v) (find (\<lambda>u. user_id u = uid) us)" for us
    by (induction us) (simp_all add: setOnlineStatus_def)
  then show ?thesis by (simp add: user_online_def option.map_comp comp_def)
qed

lemma count_after_close:
  "distinct (map fst ss) \<Longrightarrow> (sid, uid) \<in> set ss
     \<Longrightarrow> Suc (length (filter (\<lambda>s. snd s = uid) (filter (\<lambda>s. fst s \<noteq> sid) ss)))
           = length (filter (\<lambda>s. snd s = uid) ss)"
proof (induction ss)
  case Nil
  then show ?case by simp
next
  case (Cons a ss)
  show ?case
  proof (cases "a = (sid, uid)")
    case True
    with Cons.prems(1) have "\<forall>s \<in> set ss. fst s \<noteq> sid" by (auto simp: image_iff)
    then have "filter (\<lambda>s. fst s \<noteq> sid) ss = ss" by (simp add: filter_id_conv)
    with True show ?thesis by simp
  next
    case False
    with Cons.prems have mem: "(sid, uid) \<in> set ss" and d: "distinct (map fst ss)"
      and ne: "fst a \<noteq> sid" by (auto simp: image_iff)
    from Cons.IH [OF d mem] ne show ?thesis by simp
  qed
qed

text \<open>
  C8 (as amended). No count of connections enters the online status. For a stored user
  and a state in which the socket \<open>sid\<close> of that user is open among sockets with
  distinct ids: when the store accepts the update, a further connection sets the stored
  status to online, broadcasts \<open>user_online\<close> and adds one to the user's connections;
  closing \<open>sid\<close> sets the stored status to offline and broadcasts \<open>user_offline\<close>, and the
  user's other connections, one fewer than before, stay open. When the store rejects the
  update, the stored users and the broadcasts are as before. The \<open>online_status\<close> event
  and \<open>setOnlineStatus\<close> set the stored status to the value they are given.
\<close>

theorem presence_without_reference_count:
  assumes stored: "user_online uid (fst st) = Some b"
    and ids: "distinct (map fst (sockets (snd st)))"
    and openc: "(sid, uid) \<in> set (sockets (snd st))"
  shows "user_online uid (fst (on_connection now True sid' uid st)) = Some True
     \<and> emitted (snd (on_connection now True sid' uid st))
         = emitted (snd st) @ [Broadcast ''user_online'' uid]
     \<and> connection_count uid (snd (on_connection now True sid' uid st))
         = Suc (connection_count uid (snd st))
     \<and> fst (on_connection now False sid' uid st) = fst st
     \<and> emitted (snd (on_connection now False sid' uid st)) = emitted (snd st)
     \<and> user_online uid (fst (on_disconnect now True sid uid st)) = Some False
     \<and> emitted (snd (on_disconnect now True sid uid st))
         = emitted (snd st) @ [Broadcast ''user_offline'' uid]
     \<and> Suc (connection_count uid (snd (on_disconnect now True sid uid st)))
         = connection_count uid (snd st)
     \<and> fst (on_disconnect now False sid uid st) = fst st
     \<and> emitted (snd (on_disconnect now False sid uid st)) = emitted (snd st)
     \<and> user_online uid (fst (on_online_status now True uid v st)) = Some v
     \<and> emitted (snd (on_online_status now True uid v st))
         = emitted (snd st) @ [Broadcast (if v then ''user_online'' else ''user_offline'') uid]
     \<and> user_online uid ((fst st)\<lparr> users := setOnlineStatus uid v now (users (fst st)) \<rparr>)
         = Some v"
proof -
  have cnt: "Suc (connection_count uid (snd (on_disconnect now True sid uid st)))
         = connection_count uid (snd st)"
    using count_after_close [OF ids openc]
    by (simp add: on_disconnect_def Let_def connection_count_def)
  show ?thesis
    using stored cnt
    by (simp add: on_connection_def on_disconnect_def on_online_status_def Let_def
          user_online_set_presence user_online_setOnlineStatus connection_count_def)
qed

theorem presence_without_reference_count_witness:
  "user_online 2 (fst ex_presence) = Some True
   \<and> distinct (map fst (sockets (snd ex_presence)))
   \<and> (3, 2) \<in> set (sockets (snd ex_presence))
   \<and> connection_count 2 (snd ex_presence) = 2
   \<and> user_online 2 (fst (on_disconnect 30 True 3 2 ex_presence)) = Some False
   \<and> connection_count 2 (snd (on_disconnect 30 True 3 2 ex_presence)) = 1
   \<and> emitted (snd (on_disconnect 30 True 3 2 ex_presence))
       = emitted (snd ex_presence) @ [Broadcast ''user_offline'' 2]
   \<and> user_online 2 (fst (on_connection 30 True 6 2 ex_presence)) = Some True
   \<and> connection_count 2 (snd (on_connection 30 True 6 2 ex_presence)) = 3
   \<and> emitted (snd (on_connection 30 True 6 2 ex_presence))
       = emitted (snd ex_presence) @ [Broadcast ''user_online'' 2]
   \<and> fst (on_disconnect 30 False 3 2 ex_presence) = fst ex_presence"
proof -
  have h1: "user_online 2 (fst ex_presence) = Some True"
    by (simp add: user_online_def ex_presence_def ex_db_def ex_alice_def ex_bob_def)
  have h2: "distinct (map fst (sockets (snd ex_presence)))"
    by (simp add: ex_presence_def)
  have h3: "(3, 2) \<in> set (sockets (snd ex_presence))"
    by (simp add: ex_presence_def)
  have n: "connection_count 2 (snd ex_presence) = 2"
    by (simp add: connection_count_def ex_presence_def)
  from presence_without_reference_count [OF h1 h2 h3, of 30 6] h1 h2 h3 n
  show ?thesis by simp
qed

text \<open>
  C8 as stated fails: Alice connects twice and closes the first connection. One connection
  is left, the stored flag says offline, and three status changes were broadcast.
\<close>

theorem presence_second_connection_counterexample:
  "user_online 1 (fst (on_disconnect 30 True 1 1
       (on_connection 20 True 2 1 (on_connection 10 True 1 1 (ex_db, ex_io))))) = Some False
   \<and> connection_count 1 (snd (on_disconnect 30 True 1 1
       (on_connection 20 True 2 1 (on_connection 10 True 1 1 (ex_db, ex_io))))) = 1
   \<and> emitted (snd (on_disconnect 30 True 1 1
       (on_connection 20 True 2 1 (on_connection 10 True 1 1 (ex_db, ex_io)))))
       = [Broadcast ''user_online'' 1, Broadcast ''user_online'' 1, Broadcast ''user_offline'' 1]"
  by (simp add: on_connection_def on_disconnect_def set_presence_def user_online_def
        connection_count_def ex_db_def ex_io_def ex_alice_def ex_bob_def)

section \<open>Read receipts\<close>

text \<open>
  C9 (as amended). On an already-read document the model methods \<open>markAsRead\<close> of
  Message and Notification change nothing and save nothing. The \<open>notification_read\<close>
  handler leaves an already-read notification of the caller as it is and answers with the
  error event \<open>Notification is already read\<close>. The \<open>message_read\<close> handler changes
  nothing when the caller is the sender of the message.
\<close>

theorem mark_as_read_again:
  "(m_isRead m \<longrightarrow> message_markAsRead now m ms = (m, ms))
   \<and> (n_isRead n \<longrightarrow> notification_markAsRead now n ns = (n, ns))
   \<and> (find (\<lambda>x. n_id x = nid \<and> n_userId x = uid) (notifications d) = Some n \<and> n_isRead n
        \<longrightarrow> socket_notification_read now uid nid d
              = ([ToSocket ''error'' ''Notification is already read''], d))
   \<and> (find (\<lambda>x. msg_id x = mid) (messages d) = Some m \<and> senderId m = uid
        \<longrightarrow> socket_message_read now uid mid cid d = ([], d))"
  by (simp add: message_markAsRead_def notification_markAsRead_def
        socket_notification_read_def socket_message_read_def split: option.splits)

theorem mark_as_read_again_witness:
  "m_isRead ex_message \<and> message_markAsRead 900 ex_message [ex_message] = (ex_message, [ex_message])
   \<and> n_isRead ex_notification
   \<and> notification_markAsRead 900 ex_notification [ex_notification]
       = (ex_notification, [ex_notification])
   \<and> socket_notification_read 900 2 70 (ex_db\<lparr> notifications := [ex_notification] \<rparr>)
       = ([ToSocket ''error'' ''Notification is already read''],
          ex_db\<lparr> notifications := [ex_notification] \<rparr>)
   \<and> socket_message_read 900 1 60 50
        (ex_db\<lparr> conversations := [ex_conversation], messages := [ex_message] \<rparr>)
       = ([], ex_db\<lparr> conversations := [ex_conversation], messages := [ex_message] \<rparr>)"
proof -
  have a: "m_isRead ex_message" and b: "n_isRead ex_notification"
    by (simp_all add: ex_message_def ex_notification_def)
  have c: "find (\<lambda>x. n_id x = 70 \<and> n_userId x = 2)
             (notifications (ex_db\<lparr> notifications := [ex_notification] \<rparr>)) = Some ex_notification"
    by (simp add: ex_notification_def)
  have e: "find (\<lambda>x. msg_id x = 60)
             (messages (ex_db\<lparr> conversations := [ex_conversation], messages := [ex_message] \<rparr>))
             = Some ex_message"
    and f: "senderId ex_message = 1"
    by (simp_all add: ex_message_def)
  from mark_as_read_again [of ex_message 900 "[ex_message]" ex_notification "[ex_notification]"
      70 2 "ex_db\<lparr> notifications := [ex_notification] \<rparr>"]
    a b c
  have p1: "message_markAsRead 900 ex_message [ex_message] = (ex_message, [ex_message])"
    and p2: "notification_markAsRead 900 ex_notification [ex_notification]
       = (ex_notification, [ex_notification])"
    and p3: "socket_notification_read 900 2 70 (ex_db\<lparr> notifications := [ex_notification] \<rparr>)
       = ([ToSocket ''error'' ''Notification is already read''],
          ex_db\<lparr> notifications := [ex_notification] \<rparr>)"
    by simp_all
  have p4: "socket_message_read 900 1 60 50
        (ex_db\<lparr> conversations := [ex_conversation], messages := [ex_message] \<rparr>)
       = ([], ex_db\<lparr> conversations := [ex_conversation], messages := [ex_message] \<rparr>)"
    by (simp add: socket_message_read_def ex_conversation_def ex_message_def)
  from a b p1 p2 p3 p4 show ?thesis by simp
qed

text \<open>
  C9 as stated fails: marking an already-read notification through the real-time handler
  is answered with an error event.
\<close>

theorem notification_read_again_counterexample:
  "socket_notification_read 900 2 70 (ex_db\<lparr> notifications := [ex_notification] \<rparr>)
     = ([ToSocket ''error'' ''Notification is already read''],
        ex_db\<lparr> notifications := [ex_notification] \<rparr>)"
  by (simp add: socket_notification_read_def ex_notification_def)

text \<open>
  The \<open>message_read\<close> handler has no test of \<open>isRead\<close>: Bob marking Alice's message,
  read at 700, again at 900 moves \<open>readAt\<close> to 900.
\<close>

lemma socket_message_read_overwrites_readAt:
  "messages (snd (socket_message_read 900 2 60 50
       (ex_db\<lparr> conversations := [ex_conversation], messages := [ex_message] \<rparr>)))
     = [ex_message\<lparr> m_readAt := Some 900 \<rparr>]"
  by (simp add: socket_message_read_def save_message_def message_pre_save_def Let_def
        ex_conversation_def ex_message_def ex_db_def)

end
